theory Spec2Isabelle
  imports Complex_Main "HOL-Library.Char_ord" "HOL-Library.List_Lexorder"
    "HOL-Library.Product_Lexorder"
begin

section \<open>Two-proportion z-test (results\_tables.py, two\_prop\_ztest)\<close>

text \<open>
  Python floats are idealised as real numbers throughout; a float NaN is the value
  \<open>None\<close> of an option type. \<open>np.sqrt\<close> of a negative number is NaN.
  The survival function of the standard normal distribution, \<open>stats.norm.sf\<close>, belongs
  to scipy and is a parameter \<open>sf\<close>.
\<close>

datatype error = KeyError | TypeError | ValueError | ZeroDivisionError

definition np_sqrt :: "real \<Rightarrow> real option" where
  "np_sqrt x = (if x < 0 then None else Some (sqrt x))"

definition two_prop_ztest ::
  "(real \<Rightarrow> real) \<Rightarrow> real \<Rightarrow> real \<Rightarrow> real \<Rightarrow> real \<Rightarrow> (real \<times> real) option" where
  "two_prop_ztest sf k1 n1 k2 n2 =
     (let p1 = (if n1 \<noteq> 0 then k1 / n1 else 0);
          p2 = (if n2 \<noteq> 0 then k2 / n2 else 0);
          p_pool = (if n1 + n2 \<noteq> 0 then (k1 + k2) / (n1 + n2) else 0);
          se = (if n1 \<noteq> 0 \<and> n2 \<noteq> 0
                then np_sqrt (p_pool * (1 - p_pool) * (1 / n1 + 1 / n2)) else None)
      in case se of
           None \<Rightarrow> None
         | Some s \<Rightarrow>
             if s = 0 then None
             else (let z = (p1 - p2) / s; pval = 2 * sf \<bar>z\<bar> in Some (z, pval)))"

text \<open>
  The same function with the division of Python, which raises ZeroDivisionError on a
  zero denominator, and the exception propagated from every division.
\<close>

definition py_div :: "real \<Rightarrow> real \<Rightarrow> error + real" where
  "py_div a b = (if b = 0 then Inl ZeroDivisionError else Inr (a / b))"

definition and_then :: "error + 'a \<Rightarrow> ('a \<Rightarrow> error + 'b) \<Rightarrow> error + 'b" where
  "and_then m f = (case m of Inl e \<Rightarrow> Inl e | Inr x \<Rightarrow> f x)"

definition two_prop_ztest_checked ::
  "(real \<Rightarrow> real) \<Rightarrow> real \<Rightarrow> real \<Rightarrow> real \<Rightarrow> real \<Rightarrow> error + (real \<times> real) option" where
  "two_prop_ztest_checked sf k1 n1 k2 n2 =
     and_then (if n1 \<noteq> 0 then py_div k1 n1 else Inr 0) (\<lambda>p1.
     and_then (if n2 \<noteq> 0 then py_div k2 n2 else Inr 0) (\<lambda>p2.
     and_then (if n1 + n2 \<noteq> 0 then py_div (k1 + k2) (n1 + n2) else Inr 0) (\<lambda>p_pool.
     and_then (if n1 \<noteq> 0 \<and> n2 \<noteq> 0
               then and_then (py_div 1 n1) (\<lambda>a.
                    and_then (py_div 1 n2) (\<lambda>b.
                    Inr (np_sqrt (p_pool * (1 - p_pool) * (a + b)))))
               else Inr None) (\<lambda>se.
     case se of
       None \<Rightarrow> Inr None
     | Some s \<Rightarrow>
         if s = 0 then Inr None
         else and_then (py_div (p1 - p2) s) (\<lambda>z. Inr (Some (z, 2 * sf \<bar>z\<bar>)))))))"

text \<open>
  The pooled standard error as the specification writes it:
  \<open>p_pool = (k1 + k2) / (n1 + n2)\<close> and
  \<open>se = sqrt (p_pool * (1 - p_pool) * (1 / n1 + 1 / n2))\<close>, undefined where a
  denominator is zero or the radicand is negative.
\<close>

definition spec_pooled_se :: "real \<Rightarrow> real \<Rightarrow> real \<Rightarrow> real \<Rightarrow> real option" where
  "spec_pooled_se k1 n1 k2 n2 =
     (if n1 = 0 \<or> n2 = 0 \<or> n1 + n2 = 0 then None
      else (let p_pool = (k1 + k2) / (n1 + n2);
                v = p_pool * (1 - p_pool) * (1 / n1 + 1 / n2)
            in if v < 0 then None else Some (sqrt v)))"

text \<open>The quantity under the square root, as the code computes it.\<close>

definition pooled_radicand :: "real \<Rightarrow> real \<Rightarrow> real \<Rightarrow> real \<Rightarrow> real" where
  "pooled_radicand k1 n1 k2 n2 =
     (let p_pool = (if n1 + n2 \<noteq> 0 then (k1 + k2) / (n1 + n2) else 0)
      in p_pool * (1 - p_pool) * (1 / n1 + 1 / n2))"

section \<open>Data frames\<close>

text \<open>
  A pandas cell is text, a number or the missing value NaN. A data frame is its list of
  column labels and its rows, each row giving the cell under every label; only the cells
  under the labels in \<open>columns\<close> belong to the frame, and looking up any other label
  raises KeyError. Functions of pandas and scipy that the scripts call and that are not
  part of the repository are the fields of \<open>lib\<close>; for those that can raise,
  \<open>None\<close> stands for the exception. \<open>chi2_sf d\<close> is the survival function of the
  chi-square distribution with \<open>d\<close> degrees of freedom.
\<close>

datatype cell = Str string | Num real | NA

type_synonym pyfloat = "real option"

type_synonym row = "string \<Rightarrow> cell"

record frame =
  columns :: "string list"
  recs :: "row list"

record lib =
  to_numeric :: "string \<Rightarrow> real option"
  float_str :: "real \<Rightarrow> string"
  norm_sf :: "real \<Rightarrow> real"
  mannwhitneyu :: "cell list \<Rightarrow> cell list \<Rightarrow> (pyfloat \<times> pyfloat) option"
  kruskal :: "cell list list \<Rightarrow> (pyfloat \<times> pyfloat) option"
  chi2_contingency :: "nat list list \<Rightarrow> (pyfloat \<times> pyfloat) option"
  chi2_sf :: "nat \<Rightarrow> real \<Rightarrow> real"

definition has_col :: "frame \<Rightarrow> string \<Rightarrow> bool" where
  "has_col df c = (c \<in> set (columns df))"

definition col :: "frame \<Rightarrow> string \<Rightarrow> cell list" where
  "col df c = map (\<lambda>r. r c) (recs df)"

text \<open>\<open>df[c] = f(row)\<close>: overwrite column \<open>c\<close>, or append it when it is new.\<close>

definition assign :: "string \<Rightarrow> (row \<Rightarrow> cell) \<Rightarrow> frame \<Rightarrow> frame" where
  "assign c f df =
     \<lparr>columns = (if c \<in> set (columns df) then columns df else columns df @ [c]),
      recs = map (\<lambda>r. r(c := f r)) (recs df)\<rparr>"

definition dropna :: "cell list \<Rightarrow> cell list" where
  "dropna xs = filter (\<lambda>v. v \<noteq> NA) xs"

fun num_val :: "cell \<Rightarrow> real" where
  "num_val (Num x) = x"
| "num_val _ = 0"

fun is_text :: "cell \<Rightarrow> bool" where
  "is_text (Str s) = True"
| "is_text _ = False"

text \<open>Sum of a numeric column, skipping NaN.\<close>

definition col_sum :: "cell list \<Rightarrow> real" where
  "col_sum xs = sum_list (map num_val xs)"

definition nunique :: "cell list \<Rightarrow> nat" where
  "nunique xs = length (remdups (dropna xs))"

definition count_notna :: "cell list \<Rightarrow> nat" where
  "count_notna xs = length (dropna xs)"

text \<open>Sorting of labels: numbers by value, text by code points, numbers before text.\<close>

fun cell_key :: "cell \<Rightarrow> nat \<times> real \<times> string" where
  "cell_key (Num x) = (0, x, [])"
| "cell_key (Str s) = (1, 0, s)"
| "cell_key NA = (2, 0, [])"

definition sorted_unique :: "cell list \<Rightarrow> cell list" where
  "sorted_unique xs = sort_key cell_key (remdups (dropna xs))"

section \<open>Metric normalisation (load\_data of results\_tables.py, prepare of stat\_tests.py)\<close>

definition is_space :: "char \<Rightarrow> bool" where
  "is_space c = ((of_char c :: nat) \<in> {9, 10, 11, 12, 13, 28, 29, 30, 31, 32, 133, 160})"

definition strip :: "string \<Rightarrow> string" where
  "strip s = rev (dropWhile is_space (rev (dropWhile is_space s)))"

fun astype_str :: "lib \<Rightarrow> cell \<Rightarrow> string" where
  "astype_str L (Str s) = s"
| "astype_str L (Num x) = float_str L x"
| "astype_str L NA = ''nan''"

text \<open>
  \<open>pd.to_numeric(x.astype(str).str.replace(',', '').str.strip(), errors='coerce')\<close>
  on one cell.
\<close>

definition clean_numeric :: "lib \<Rightarrow> cell \<Rightarrow> cell" where
  "clean_numeric L v =
     (case to_numeric L (strip (filter (\<lambda>c. c \<noteq> CHR '','') (astype_str L v))) of
        None \<Rightarrow> NA
      | Some x \<Rightarrow> Num x)"

definition clean_columns :: "lib \<Rightarrow> frame \<Rightarrow> frame" where
  "clean_columns L df =
     fold (\<lambda>c d. if has_col d c then assign c (\<lambda>r. clean_numeric L (r c)) d else d)
       [''TotalPremium'', ''TotalClaims'', ''CustomValueEstimate''] df"

text \<open>
  \<open>(x.fillna(0) > 0).astype(int)\<close> on one cell. The cell has been through
  \<open>clean_numeric\<close>, which never yields text.
\<close>

fun claim_occurred :: "cell \<Rightarrow> cell" where
  "claim_occurred (Num x) = Num (if x > 0 then 1 else 0)"
| "claim_occurred _ = Num 0"

fun cell_sub :: "cell \<Rightarrow> cell \<Rightarrow> cell" where
  "cell_sub (Num a) (Num b) = Num (a - b)"
| "cell_sub _ _ = NA"

definition severity_of :: "row \<Rightarrow> cell" where
  "severity_of r = (if r ''ClaimOccurred'' = Num 1 then r ''TotalClaims'' else NA)"

text \<open>\<open>df.columns = [c.strip() for c in df.columns]\<close>.\<close>

definition strip_columns :: "frame \<Rightarrow> frame" where
  "strip_columns df =
     \<lparr>columns = map strip (columns df),
      recs = map (\<lambda>r c'. case find (\<lambda>c. strip c = c') (columns df) of
                              Some c \<Rightarrow> r c | None \<Rightarrow> NA) (recs df)\<rparr>"

text \<open>
  \<open>load_data\<close> of results\_tables.py; \<open>raw\<close> is the table in the file that
  \<open>pd.read_csv\<close> reads. With \<open>parse_dates=['TransactionMonth']\<close> the reading raises
  ValueError when the file has no column of that label; the parsed dates are not
  modelled, the cells of that column stay as they are. The frame is created inside the
  function, which therefore changes no object of its caller.
\<close>

definition load_data :: "lib \<Rightarrow> frame \<Rightarrow> error + frame" where
  "load_data L raw =
     (if \<not> has_col raw ''TransactionMonth'' then Inl ValueError
      else
        let df1 = clean_columns L (strip_columns raw)
        in if \<not> has_col df1 ''TotalClaims'' then Inl KeyError
           else
             let df2 = assign ''ClaimOccurred'' (\<lambda>r. claim_occurred (r ''TotalClaims'')) df1
             in if \<not> has_col df2 ''TotalPremium'' then Inl KeyError
                else Inr (assign ''ClaimSeverity'' severity_of
                           (assign ''Margin''
                              (\<lambda>r. cell_sub (r ''TotalPremium'') (r ''TotalClaims'')) df2)))"

text \<open>
  \<open>prepare\<close> of stat\_tests.py works on the frame object its caller passes. The store
  maps object addresses to frames; \<open>prepare\<close> takes the address of the frame and
  returns the address it hands back (or the exception) together with the store it
  leaves behind. \<open>prepare_frame\<close> is the sequence of column assignments, with the
  exception raised by \<open>df['TotalClaims']\<close> when that column is absent.
\<close>

type_synonym store = "nat \<Rightarrow> frame"

definition prepare_frame :: "lib \<Rightarrow> frame \<Rightarrow> error option \<times> frame" where
  "prepare_frame L df =
     (let df1 = clean_columns L df;
          df2 = assign ''ClaimOccurred''
                  (if has_col df1 ''TotalClaims''
                   then (\<lambda>r. claim_occurred (r ''TotalClaims'')) else (\<lambda>r. Num 0)) df1
      in if \<not> has_col df2 ''TotalClaims'' then (Some KeyError, df2)
         else
           let df3 = assign ''ClaimSeverity'' severity_of df2;
               df4 = assign ''Margin''
                       (if has_col df3 ''TotalPremium'' \<and> has_col df3 ''TotalClaims''
                        then (\<lambda>r. cell_sub (r ''TotalPremium'') (r ''TotalClaims''))
                        else (\<lambda>r. NA)) df3
           in (None, df4))"

definition prepare :: "lib \<Rightarrow> nat \<Rightarrow> store \<Rightarrow> (error + nat) \<times> store" where
  "prepare L a h =
     (case prepare_frame L (h a) of
        (None, df') \<Rightarrow> (Inr a, h(a := df'))
      | (Some e, df') \<Rightarrow> (Inl e, h(a := df')))"

section \<open>Segment aggregation and segment-vs-rest tests (summarize\_group)\<close>

record group_agg =
  name :: cell
  policies :: nat
  total_premium :: real
  total_claims :: real
  claims_count :: real

record result_row = group_agg +
  claim_freq :: pyfloat
  loss_ratio :: pyfloat
  z_freq_vs_rest :: pyfloat
  p_freq_vs_rest :: pyfloat
  mw_stat_severity_vs_rest :: pyfloat
  p_severity_vs_rest :: pyfloat

text \<open>
  \<open>df.groupby(group_col)\<close>: one group per distinct value of the column, in sorted
  order; rows whose value is missing belong to no group.
\<close>

definition group_keys :: "frame \<Rightarrow> string \<Rightarrow> cell list" where
  "group_keys df group_col = sorted_unique (col df group_col)"

definition group_rows :: "frame \<Rightarrow> string \<Rightarrow> cell \<Rightarrow> row list" where
  "group_rows df group_col k = filter (\<lambda>r. r group_col = k) (recs df)"

definition rest_rows :: "frame \<Rightarrow> string \<Rightarrow> cell \<Rightarrow> row list" where
  "rest_rows df group_col k = filter (\<lambda>r. r group_col \<noteq> k) (recs df)"

definition agg :: "frame \<Rightarrow> string \<Rightarrow> cell \<Rightarrow> group_agg" where
  "agg df group_col k =
     (let g = group_rows df group_col k
      in \<lparr>name = k,
          policies = (if has_col df ''PolicyID'' then nunique (map (\<lambda>r. r ''PolicyID'') g)
                      else count_notna (map (\<lambda>r. r ''ClaimOccurred'') g)),
          total_premium = col_sum (map (\<lambda>r. r ''TotalPremium'') g),
          total_claims = col_sum (map (\<lambda>r. r ''TotalClaims'') g),
          claims_count = col_sum (map (\<lambda>r. r ''ClaimOccurred'') g)\<rparr>)"

text \<open>
  \<open>sort_values('policies', ascending=False)\<close>. Rows of equal count keep their order
  here; the default sort of pandas leaves their order open.
\<close>

definition sort_policies_desc :: "('a group_agg_scheme) list \<Rightarrow> ('a group_agg_scheme) list" where
  "sort_policies_desc xs = sort_key (\<lambda>r. - int (policies r)) xs"

text \<open>\<open>head(n)\<close>; a negative \<open>n\<close> leaves out the last \<open>-n\<close> rows.\<close>

definition head :: "int \<Rightarrow> 'a list \<Rightarrow> 'a list" where
  "head n xs = (if 0 \<le> n then take (nat n) xs else take (length xs - nat (- n)) xs)"

text \<open>\<open>df.groupby(group_col).agg(...).reset_index()\<close>.\<close>

definition groupby_agg :: "frame \<Rightarrow> string \<Rightarrow> group_agg list" where
  "groupby_agg df group_col = map (agg df group_col) (group_keys df group_col)"

text \<open>
  \<open>if top_n: grp = grp.sort_values('policies', ascending=False).head(top_n)\<close>;
  \<open>None\<close> and 0 are both false in Python.
\<close>

definition keep_top :: "int option \<Rightarrow> group_agg list \<Rightarrow> group_agg list" where
  "keep_top top_n grp =
     (case top_n of
        None \<Rightarrow> grp
      | Some n \<Rightarrow> if n \<noteq> 0 then head n (sort_policies_desc grp) else grp)"

text \<open>\<open>rows['ClaimSeverity'].dropna()\<close>.\<close>

definition severity_sample :: "row list \<Rightarrow> cell list" where
  "severity_sample rs = dropna (map (\<lambda>r. r ''ClaimSeverity'') rs)"

text \<open>The Mann-Whitney comparison of one group with the rest, behind its size gate.\<close>

definition severity_vs_rest :: "lib \<Rightarrow> cell list \<Rightarrow> cell list \<Rightarrow> pyfloat \<times> pyfloat" where
  "severity_vs_rest L s_group s_rest =
     (if length s_group \<ge> 10 \<and> length s_rest \<ge> 10
      then (case mannwhitneyu L s_group s_rest of
              Some (stat_u, p_sev) \<Rightarrow> (stat_u, p_sev)
            | None \<Rightarrow> (None, None))
      else (None, None))"

text \<open>The body of the loop over the rows of \<open>grp\<close>.\<close>

definition result_of ::
  "lib \<Rightarrow> frame \<Rightarrow> string \<Rightarrow> int \<Rightarrow> real \<Rightarrow> group_agg \<Rightarrow> result_row" where
  "result_of L df group_col overall_policies overall_claims g =
     (let n = policies g;
          k = claims_count g;
          tp = total_premium g;
          tc = total_claims g;
          loss = (if tp \<noteq> 0 then Some (tc / tp) else None);
          freq = (if n \<noteq> 0 then Some (k / real n) else None);
          rest_n = overall_policies - int n;
          rest_k = overall_claims - k;
          zp = (if rest_n > 0 then two_prop_ztest (norm_sf L) k (real n) rest_k (real_of_int rest_n)
                else None);
          s_group = severity_sample (group_rows df group_col (name g));
          s_rest = severity_sample (rest_rows df group_col (name g));
          mw = severity_vs_rest L s_group s_rest
      in \<lparr>name = name g, policies = n, total_premium = tp, total_claims = tc,
          claims_count = k, claim_freq = freq, loss_ratio = loss,
          z_freq_vs_rest = map_option fst zp, p_freq_vs_rest = map_option snd zp,
          mw_stat_severity_vs_rest = fst mw, p_severity_vs_rest = snd mw\<rparr>)"

text \<open>The overall totals, \<open>grp['policies'].sum()\<close> and \<open>grp['claims_count'].sum()\<close>.\<close>

definition overall_policies :: "group_agg list \<Rightarrow> int" where
  "overall_policies grp = int (sum_list (map policies grp))"

definition overall_claims :: "group_agg list \<Rightarrow> real" where
  "overall_claims grp = sum_list (map claims_count grp)"

text \<open>
  A cell of text in a summed column is outside what \<open>load_data\<close> produces; pandas
  then concatenates or raises, depending on the mix, and the division in the loop
  raises. The model raises TypeError. An empty list of results has no column
  \<open>policies\<close> to sort by, which is a KeyError.
\<close>

definition text_in_sums :: "frame \<Rightarrow> string \<Rightarrow> bool" where
  "text_in_sums df group_col =
     list_ex (\<lambda>r. r group_col \<noteq> NA \<and>
        (is_text (r ''TotalPremium'') \<or> is_text (r ''TotalClaims'') \<or>
         is_text (r ''ClaimOccurred''))) (recs df)"

definition summarize_group ::
  "lib \<Rightarrow> frame \<Rightarrow> string \<Rightarrow> int option \<Rightarrow> error + result_row list" where
  "summarize_group L df group_col top_n =
     (if \<not> (has_col df group_col \<and> has_col df ''TotalPremium'' \<and>
             has_col df ''TotalClaims'' \<and> has_col df ''ClaimOccurred'')
      then Inl KeyError
      else if text_in_sums df group_col then Inl TypeError
      else
        let grp = groupby_agg df group_col;
            grp' = keep_top top_n grp
        in if grp' = [] \<or> \<not> has_col df ''ClaimSeverity'' then Inl KeyError
           else Inr (sort_policies_desc
                       (map (result_of L df group_col (overall_policies grp) (overall_claims grp))
                          grp')))"

section \<open>Hypothesis tests of stat\_tests.py\<close>

record contingency =
  row_labels :: "cell list"
  col_labels :: "cell list"
  counts :: "nat list list"

text \<open>
  \<open>pd.crosstab(xs, ys)\<close>: the table of how often each pair of values occurs, rows and
  columns in sorted label order; a pair with a missing member is left out.
\<close>

definition crosstab :: "cell list \<Rightarrow> cell list \<Rightarrow> contingency" where
  "crosstab xs ys =
     (let ps = filter (\<lambda>p. fst p \<noteq> NA \<and> snd p \<noteq> NA) (zip xs ys);
          rl = sorted_unique (map fst ps);
          cl = sorted_unique (map snd ps)
      in \<lparr>row_labels = rl, col_labels = cl,
          counts = map (\<lambda>x. map (\<lambda>y. length (filter (\<lambda>p. p = (x, y)) ps)) cl) rl\<rparr>)"

fun fillna_missing :: "cell \<Rightarrow> cell" where
  "fillna_missing NA = Str ''MISSING''"
| "fillna_missing v = v"

definition chi2_test_frequency ::
  "lib \<Rightarrow> frame \<Rightarrow> string \<Rightarrow> error + (pyfloat \<times> pyfloat \<times> contingency)" where
  "chi2_test_frequency L df group_col =
     (if \<not> (has_col df group_col \<and> has_col df ''ClaimOccurred'') then Inl KeyError
      else
        let ct = crosstab (map fillna_missing (col df group_col)) (col df ''ClaimOccurred'')
        in case chi2_contingency L (counts ct) of
             None \<Rightarrow> Inl ValueError
           | Some (chi2, p) \<Rightarrow> Inr (chi2, p, ct))"

text \<open>
  \<open>kw_test_numeric\<close>; the Python result \<open>(None, None, labels)\<close> is
  \<open>(None, labels)\<close> and \<open>(stat, p, labels)\<close> is \<open>(Some (stat, p), labels)\<close>.
  The argument \<open>min_size\<close> is \<open>None\<close> when the caller leaves \<open>min_group_size\<close> to
  its default of 20.
\<close>

definition kw_samples :: "frame \<Rightarrow> string \<Rightarrow> string \<Rightarrow> (cell \<times> cell list) list" where
  "kw_samples df group_col value_col =
     map (\<lambda>k. (k, dropna (map (\<lambda>r. r value_col) (group_rows df group_col k))))
       (group_keys df group_col)"

definition kw_test_numeric ::
  "lib \<Rightarrow> frame \<Rightarrow> string \<Rightarrow> string \<Rightarrow> int option \<Rightarrow>
     error + ((pyfloat \<times> pyfloat) option \<times> cell list)" where
  "kw_test_numeric L df group_col value_col min_size =
     (if \<not> has_col df group_col then Inl KeyError
      else if group_keys df group_col \<noteq> [] \<and> \<not> has_col df value_col then Inl KeyError
      else
        let min_group_size = (case min_size of None \<Rightarrow> 20 | Some m \<Rightarrow> m);
            kept = filter (\<lambda>kv. int (length (snd kv)) \<ge> min_group_size)
                     (kw_samples df group_col value_col);
            groups = map snd kept;
            labels = map fst kept
        in if length groups < 2 then Inr (None, labels)
           else (case kruskal L groups of
                   None \<Rightarrow> Inl ValueError
                 | Some sp \<Rightarrow> Inr (Some sp, labels)))"






text \<open>
  Lines 142 to 170, the genders. The outcome of the block is \<open>Not_enough_categories\<close>,
  or the chi-square result with the Mann-Whitney result, \<open>None\<close> for
  ``insufficient gender-labeled claims''.
\<close>

datatype gender_outcome =
  Not_enough_categories
| Gender_results "pyfloat \<times> pyfloat \<times> contingency" "(pyfloat \<times> pyfloat) option"

definition gender_tests :: "lib \<Rightarrow> frame \<Rightarrow> error + gender_outcome option" where
  "gender_tests L df =
     (if \<not> has_col df ''Gender'' then Inr None
      else if length (remdups (map fillna_missing (col df ''Gender''))) \<ge> 2 then
        (case chi2_test_frequency L df ''Gender'' of
           Inl e \<Rightarrow> Inl e
         | Inr freq \<Rightarrow>
             if \<not> has_col df ''ClaimSeverity'' then Inl KeyError
             else
               let male = severity_sample (filter (\<lambda>r. r ''Gender'' = Str ''Male'') (recs df));
                   female = severity_sample
                              (filter (\<lambda>r. r ''Gender'' = Str ''Female'') (recs df))
               in if length male \<ge> 10 \<and> length female \<ge> 10
                  then (case mannwhitneyu L male female of
                          None \<Rightarrow> Inl ValueError
                        | Some u \<Rightarrow> Inr (Some (Gender_results freq (Some u))))
                  else Inr (Some (Gender_results freq None)))
      else Inr (Some Not_enough_categories))"

section \<open>Notions of the specification\<close>

text \<open>The records that belong to no segment: their segment value is missing.\<close>

definition missing_rows :: "frame \<Rightarrow> string \<Rightarrow> row list" where
  "missing_rows df group_col = filter (\<lambda>r. r group_col = NA) (recs df)"

text \<open>A cap that drops no group: none given, 0, or at least the number \<open>m\<close> of groups.\<close>

definition keeps_every_group :: "int option \<Rightarrow> nat \<Rightarrow> bool" where
  "keeps_every_group top_n m = (case top_n of None \<Rightarrow> True | Some n \<Rightarrow> n = 0 \<or> int m \<le> n)"

text \<open>
  Modelled from the spec: scipy's \<open>chi2_contingency\<close> is not part of the repository.
  The specification says of it that it ``returns the standard Pearson chi-square
  statistic and p-value with (rows-1)(cols-1) degrees of freedom''. For a table of
  observed counts the statistic is the sum over the cells of
  \<open>(observed - expected)\<^sup>2 / expected\<close>, where the expected count of a cell is its row
  total times its column total over the grand total. \<open>pearson_routine\<close> says that
  the library routine, where it returns, returns this statistic and the p-value of
  the chi-square distribution with that many degrees of freedom.
\<close>

fun col_totals :: "nat list list \<Rightarrow> nat list" where
  "col_totals [] = []"
| "col_totals [r] = r"
| "col_totals (r # rs) = map2 (+) r (col_totals rs)"

definition pearson_chi2 :: "nat list list \<Rightarrow> real" where
  "pearson_chi2 t =
     (let n = real (sum_list (map sum_list t))
      in sum_list (map (\<lambda>r. sum_list (map (\<lambda>oc.
             let e = real (sum_list r) * real (snd oc) / n
             in (real (fst oc) - e)\<^sup>2 / e) (zip r (col_totals t)))) t))"

definition table_dof :: "nat list list \<Rightarrow> nat" where
  "table_dof t = (length t - 1) * (length (col_totals t) - 1)"


text \<open>
  A row after the cleaning loop of the normaliser: the cells under those of the three
  numeric labels that the frame has are parsed, every other cell is as it was.
\<close>

definition cleaned :: "lib \<Rightarrow> string list \<Rightarrow> row \<Rightarrow> row" where
  "cleaned L cs r =
     (\<lambda>c. if c \<in> set cs \<and> c \<in> {''TotalPremium'', ''TotalClaims'', ''CustomValueEstimate''}
          then clean_numeric L (r c) else r c)"

section \<open>Example inputs\<close>

text \<open>
  A stand-in for the library functions, and small frames on which the definitions
  above are evaluated. \<open>normal_row\<close> is a record as the normaliser leaves it.
\<close>

definition mk_row :: "(string \<times> cell) list \<Rightarrow> row" where
  "mk_row xs = (\<lambda>c. case map_of xs c of Some v \<Rightarrow> v | None \<Rightarrow> NA)"

definition example_lib :: lib where
  "example_lib =
     \<lparr>to_numeric = map_of [(''0'', 0), (''50'', 50), (''100'', 100), (''1000'', 1000)],
      float_str = (\<lambda>x. []),
      norm_sf = (\<lambda>x. 0),
      mannwhitneyu = (\<lambda>a b. Some (Some 1, Some 1)),
      kruskal = (\<lambda>g. Some (Some 1, Some 1)),
      chi2_contingency =
        (\<lambda>t. Some (Some (pearson_chi2 t),
                     Some (1 / (1 + real (table_dof t) + pearson_chi2 t)))),
      chi2_sf = (\<lambda>d x. 1 / (1 + real d + x))\<rparr>"

definition normal_row :: "cell \<Rightarrow> real \<Rightarrow> real \<Rightarrow> row" where
  "normal_row seg premium claims =
     mk_row [(''Province'', seg), (''TotalPremium'', Num premium), (''TotalClaims'', Num claims),
             (''ClaimOccurred'', Num (if claims > 0 then 1 else 0)),
             (''Margin'', Num (premium - claims)),
             (''ClaimSeverity'', if claims > 0 then Num claims else NA)]"

definition normal_columns :: "string list" where
  "normal_columns =
     [''Province'', ''TotalPremium'', ''TotalClaims'', ''ClaimOccurred'', ''Margin'',
      ''ClaimSeverity'']"

definition example_provinces :: frame where
  "example_provinces =
     \<lparr>columns = normal_columns,
      recs = [normal_row (Str ''A'') 100 50, normal_row (Str ''A'') 100 50,
              normal_row (Str ''A'') 100 50, normal_row (Str ''B'') 100 0,
              normal_row NA 100 50]\<rparr>"

text \<open>The two rows \<open>summarize_group\<close> computes for \<open>example_provinces\<close>.\<close>

definition example_row_A :: result_row where
  "example_row_A =
     \<lparr>name = Str ''A'', policies = 3, total_premium = 300, total_claims = 150,
      claims_count = 3, claim_freq = Some 1, loss_ratio = Some (1 / 2),
      z_freq_vs_rest = Some 2, p_freq_vs_rest = Some 0,
      mw_stat_severity_vs_rest = None, p_severity_vs_rest = None\<rparr>"

definition example_row_B :: result_row where
  "example_row_B =
     \<lparr>name = Str ''B'', policies = 1, total_premium = 100, total_claims = 0,
      claims_count = 0, claim_freq = Some 0, loss_ratio = Some 0,
      z_freq_vs_rest = Some (- 2), p_freq_vs_rest = Some 0,
      mw_stat_severity_vs_rest = None, p_severity_vs_rest = None\<rparr>"

text \<open>
  What \<open>pd.read_csv\<close> might return: cells of text, a column label with a trailing
  blank. \<open>example_loaded\<close> is the frame \<open>load_data\<close> makes of it.
\<close>

definition example_raw :: frame where
  "example_raw =
     \<lparr>columns = [''TransactionMonth'', ''Province'', ''TotalPremium '', ''TotalClaims''],
      recs = [mk_row [(''TransactionMonth'', Str ''2015-03''), (''Province'', Str ''A''),
                      (''TotalPremium '', Str ''100''), (''TotalClaims'', Str '' 50'')],
              mk_row [(''TransactionMonth'', Str ''2015-03''), (''Province'', Str ''A''),
                      (''TotalPremium '', Str ''1,000''), (''TotalClaims'', Str ''50'')],
              mk_row [(''TransactionMonth'', Str ''2015-03''), (''Province'', Str ''A''),
                      (''TotalPremium '', Str ''100''), (''TotalClaims'', Str ''50'')],
              mk_row [(''TransactionMonth'', Str ''2015-03''), (''Province'', Str ''B''),
                      (''TotalPremium '', Str ''0''), (''TotalClaims'', Str ''n/a'')]]\<rparr>"

definition example_loaded :: frame where
  "example_loaded = projr (load_data example_lib example_raw)"

definition example_loaded_row_A :: result_row where
  "example_loaded_row_A =
     \<lparr>name = Str ''A'', policies = 3, total_premium = 1200, total_claims = 150,
      claims_count = 3, claim_freq = Some 1, loss_ratio = Some (1 / 8),
      z_freq_vs_rest = Some 2, p_freq_vs_rest = Some 0,
      mw_stat_severity_vs_rest = None, p_severity_vs_rest = None\<rparr>"

definition example_loaded_row_B :: result_row where
  "example_loaded_row_B =
     \<lparr>name = Str ''B'', policies = 1, total_premium = 0, total_claims = 0,
      claims_count = 0, claim_freq = Some 0, loss_ratio = None,
      z_freq_vs_rest = Some (- 2), p_freq_vs_rest = Some 0,
      mw_stat_severity_vs_rest = None, p_severity_vs_rest = None\<rparr>"

text \<open>
  A file in which policy 7 of province A has three transactions, each with a claim,
  and province B has the policies 8 and 9, one of them with a claim; the frame
  \<open>load_data\<close> makes of it and the rows \<open>summarize_group\<close> computes.
\<close>

definition repeat_row :: "cell \<Rightarrow> real \<Rightarrow> string \<Rightarrow> row" where
  "repeat_row province policy claims =
     mk_row [(''TransactionMonth'', Str ''2015-03''), (''Province'', province),
             (''PolicyID'', Num policy), (''TotalPremium'', Str ''100''),
             (''TotalClaims'', Str claims)]"

definition example_raw_repeat :: frame where
  "example_raw_repeat =
     \<lparr>columns = [''TransactionMonth'', ''Province'', ''PolicyID'', ''TotalPremium'',
                 ''TotalClaims''],
      recs = [repeat_row (Str ''A'') 7 ''50'', repeat_row (Str ''A'') 7 ''50'',
              repeat_row (Str ''A'') 7 ''50'', repeat_row (Str ''B'') 8 ''50'',
              repeat_row (Str ''B'') 9 ''0'']\<rparr>"

definition example_loaded_repeat :: frame where
  "example_loaded_repeat = projr (load_data example_lib example_raw_repeat)"

definition example_repeat_row_A :: result_row where
  "example_repeat_row_A =
     \<lparr>name = Str ''A'', policies = 1, total_premium = 300, total_claims = 150,
      claims_count = 3, claim_freq = Some 3, loss_ratio = Some (1 / 2),
      z_freq_vs_rest = None, p_freq_vs_rest = None,
      mw_stat_severity_vs_rest = None, p_severity_vs_rest = None\<rparr>"

definition example_repeat_row_B :: result_row where
  "example_repeat_row_B =
     \<lparr>name = Str ''B'', policies = 2, total_premium = 200, total_claims = 50,
      claims_count = 1, claim_freq = Some (1 / 2), loss_ratio = Some (1 / 4),
      z_freq_vs_rest = None, p_freq_vs_rest = None,
      mw_stat_severity_vs_rest = None, p_severity_vs_rest = None\<rparr>"

text \<open>A frame as the caller of \<open>prepare\<close> holds it, its amounts still text.\<close>

definition example_raw_policy :: frame where
  "example_raw_policy =
     \<lparr>columns = [''Province'', ''PolicyID'', ''TotalPremium'', ''TotalClaims''],
      recs = [mk_row [(''Province'', Str ''A''), (''PolicyID'', Num 7),
                      (''TotalPremium'', Str ''100''), (''TotalClaims'', Str ''50'')],
              mk_row [(''Province'', Str ''A''), (''PolicyID'', Num 7),
                      (''TotalPremium'', Str ''100''), (''TotalClaims'', Str ''0'')]]\<rparr>"

text \<open>Eleven and ten claims in two provinces: enough for the rank test.\<close>

definition example_twenty :: frame where
  "example_twenty =
     \<lparr>columns = normal_columns,
      recs = replicate 11 (normal_row (Str ''A'') 100 50)
             @ replicate 10 (normal_row (Str ''B'') 100 50)\<rparr>"

definition example_twenty_row_A :: result_row where
  "example_twenty_row_A =
     \<lparr>name = Str ''A'', policies = 11, total_premium = 1100, total_claims = 550,
      claims_count = 11, claim_freq = Some 1, loss_ratio = Some (1 / 2),
      z_freq_vs_rest = None, p_freq_vs_rest = None,
      mw_stat_severity_vs_rest = Some 1, p_severity_vs_rest = Some 1\<rparr>"

definition example_twenty_row_B :: result_row where
  "example_twenty_row_B =
     \<lparr>name = Str ''B'', policies = 10, total_premium = 1000, total_claims = 500,
      claims_count = 10, claim_freq = Some 1, loss_ratio = Some (1 / 2),
      z_freq_vs_rest = None, p_freq_vs_rest = None,
      mw_stat_severity_vs_rest = Some 1, p_severity_vs_rest = Some 1\<rparr>"

text \<open>Frames with a column Gender, with one and with ten claims per gender.\<close>

definition gender_row :: "cell \<Rightarrow> real \<Rightarrow> row" where
  "gender_row gender claims =
     mk_row [(''Gender'', gender), (''ClaimOccurred'', Num (if claims > 0 then 1 else 0)),
             (''ClaimSeverity'', if claims > 0 then Num claims else NA)]"

definition example_genders :: "nat \<Rightarrow> frame" where
  "example_genders n =
     \<lparr>columns = [''Gender'', ''ClaimOccurred'', ''ClaimSeverity''],
      recs = replicate n (gender_row (Str ''Male'') 50)
             @ replicate n (gender_row (Str ''Female'') 50)\<rparr>"

definition example_genders_table :: "nat \<Rightarrow> pyfloat \<times> pyfloat \<times> contingency" where
  "example_genders_table n =
     (Some 0, Some 1,
      \<lparr>row_labels = [Str ''Female'', Str ''Male''], col_labels = [Num 1],
       counts = [[n], [n]]\<rparr>)"

text \<open>Two provinces with \<open>n\<close> records each, for the Kruskal-Wallis test on the margin.\<close>

definition example_margins :: "nat \<Rightarrow> frame" where
  "example_margins n =
     \<lparr>columns = [''Province'', ''Margin''],
      recs = replicate n (mk_row [(''Province'', Str ''A''), (''Margin'', Num 50)])
             @ replicate n (mk_row [(''Province'', Str ''B''), (''Margin'', Num 100)])\<rparr>"

text \<open>A store in which every address holds the same frame.\<close>

definition example_store :: "frame \<Rightarrow> store" where
  "example_store df = (\<lambda>a. df)"




section \<open>Properties of the two-proportion z-test\<close>

lemma pooled_radicand_commute:
  "pooled_radicand k2 n2 k1 n1 = pooled_radicand k1 n1 k2 n2"
  by (simp add: pooled_radicand_def add.commute)

lemma two_prop_ztest_unfold:
  "two_prop_ztest sf k1 n1 k2 n2 =
     (if n1 = 0 \<or> n2 = 0 \<or> pooled_radicand k1 n1 k2 n2 \<le> 0 then None
      else Some ((k1 / n1 - k2 / n2) / sqrt (pooled_radicand k1 n1 k2 n2),
                 2 * sf \<bar>(k1 / n1 - k2 / n2) / sqrt (pooled_radicand k1 n1 k2 n2)\<bar>))"
  by (auto simp: two_prop_ztest_def pooled_radicand_def Let_def np_sqrt_def)

lemma two_prop_ztest_example:
  "two_prop_ztest sf 2 2 0 2 = Some (2, 2 * sf 2)"
  by (simp add: two_prop_ztest_unfold pooled_radicand_def real_sqrt_divide)

text \<open>
  C3. Swapping the two samples of an applicable two-proportion z-test negates the z
  statistic and leaves the p-value as it is.
\<close>

theorem two_prop_ztest_symmetric:
  assumes "two_prop_ztest sf k1 n1 k2 n2 = Some (z, p)"
  shows "two_prop_ztest sf k2 n2 k1 n1 = Some (- z, p)"
proof -
  let ?v = "pooled_radicand k1 n1 k2 n2"
  from assms have ok: "n1 \<noteq> 0" "n2 \<noteq> 0" "\<not> ?v \<le> 0"
    and z: "z = (k1 / n1 - k2 / n2) / sqrt ?v" and p: "p = 2 * sf \<bar>z\<bar>"
    by (auto simp: two_prop_ztest_unfold split: if_splits)
  have "(k2 / n2 - k1 / n1) / sqrt ?v = - z"
    by (simp add: z minus_divide_left)
  then show ?thesis
    using ok p by (simp add: two_prop_ztest_unfold pooled_radicand_commute)
qed

theorem two_prop_ztest_symmetric_witness:
  "two_prop_ztest (\<lambda>x. 1 / (1 + x)) 2 2 0 2 = Some (2, 2 / 3) \<and>
   two_prop_ztest (\<lambda>x. 1 / (1 + x)) 0 2 2 2 = Some (- 2, 2 / 3)"
proof -
  have h: "two_prop_ztest (\<lambda>x. 1 / (1 + x)) 2 2 0 2 = Some (2, 2 / 3)"
    by (simp add: two_prop_ztest_example)
  show ?thesis
    using h two_prop_ztest_symmetric [OF h] by simp
qed

lemma spec_pooled_se_radicand:
  "spec_pooled_se k1 n1 k2 n2 =
     (if n1 = 0 \<or> n2 = 0 \<or> n1 + n2 = 0 \<or> pooled_radicand k1 n1 k2 n2 < 0 then None
      else Some (sqrt (pooled_radicand k1 n1 k2 n2)))"
  by (simp add: spec_pooled_se_def pooled_radicand_def Let_def)

lemma pooled_radicand_degenerate: "n1 + n2 = 0 \<Longrightarrow> pooled_radicand k1 n1 k2 n2 = 0"
  by (simp add: pooled_radicand_def)

lemma pooled_radicand_zero_iff:
  assumes "0 < n1" "0 < n2"
  shows "(pooled_radicand k1 n1 k2 n2 = 0) = (k1 + k2 = 0 \<or> k1 + k2 = n1 + n2)"
proof -
  have "1 / n1 + 1 / n2 > 0" using assms by (simp add: add_pos_pos)
  moreover have "n1 + n2 \<noteq> 0" using assms by simp
  ultimately show ?thesis
    by (auto simp: pooled_radicand_def Let_def)
qed

lemma two_prop_ztest_never_raises:
  "two_prop_ztest_checked sf k1 n1 k2 n2 = Inr (two_prop_ztest sf k1 n1 k2 n2)"
  by (simp add: two_prop_ztest_checked_def two_prop_ztest_def and_then_def py_div_def Let_def
      split: option.splits)

text \<open>
  C4. No division of the test has a zero denominator, so it raises nothing and its
  result is that of \<open>two_prop_ztest\<close>. The test is inapplicable exactly when
  \<open>n1 = 0\<close>, or \<open>n2 = 0\<close>, or the pooled standard error of the specification is
  undefined or 0; in every other case it returns \<open>z = (p1 - p2) / se\<close> and the
  two-sided p-value \<open>2 * sf \<bar>z\<bar>\<close>. For positive sample sizes the standard error is
  0 exactly when the pooled proportion is 0 or 1.
\<close>

theorem two_prop_ztest_inapplicable_iff:
  "two_prop_ztest_checked sf k1 n1 k2 n2 = Inr (two_prop_ztest sf k1 n1 k2 n2) \<and>
   ((two_prop_ztest sf k1 n1 k2 n2 = None) =
      (n1 = 0 \<or> n2 = 0 \<or> spec_pooled_se k1 n1 k2 n2 = None
       \<or> spec_pooled_se k1 n1 k2 n2 = Some 0)) \<and>
   (\<forall>se. n1 \<noteq> 0 \<and> n2 \<noteq> 0 \<and> spec_pooled_se k1 n1 k2 n2 = Some se \<and> se \<noteq> 0 \<longrightarrow>
      two_prop_ztest sf k1 n1 k2 n2 =
        Some ((k1 / n1 - k2 / n2) / se, 2 * sf \<bar>(k1 / n1 - k2 / n2) / se\<bar>)) \<and>
   (0 < n1 \<and> 0 < n2 \<longrightarrow>
      (spec_pooled_se k1 n1 k2 n2 = Some 0) = (k1 + k2 = 0 \<or> k1 + k2 = n1 + n2))"
proof (intro conjI allI impI)
  show "two_prop_ztest_checked sf k1 n1 k2 n2 = Inr (two_prop_ztest sf k1 n1 k2 n2)"
    by (rule two_prop_ztest_never_raises)
next
  show "(two_prop_ztest sf k1 n1 k2 n2 = None) =
      (n1 = 0 \<or> n2 = 0 \<or> spec_pooled_se k1 n1 k2 n2 = None
       \<or> spec_pooled_se k1 n1 k2 n2 = Some 0)"
    using pooled_radicand_degenerate[of n1 n2 k1 k2]
    by (auto simp: two_prop_ztest_unfold spec_pooled_se_radicand)
next
  fix se
  assume "n1 \<noteq> 0 \<and> n2 \<noteq> 0 \<and> spec_pooled_se k1 n1 k2 n2 = Some se \<and> se \<noteq> 0"
  then show "two_prop_ztest sf k1 n1 k2 n2 =
        Some ((k1 / n1 - k2 / n2) / se, 2 * sf \<bar>(k1 / n1 - k2 / n2) / se\<bar>)"
    by (auto simp: two_prop_ztest_unfold spec_pooled_se_radicand split: if_splits)
next
  assume h: "0 < n1 \<and> 0 < n2"
  have "(spec_pooled_se k1 n1 k2 n2 = Some 0) = (pooled_radicand k1 n1 k2 n2 = 0)"
    using h by (auto simp: spec_pooled_se_radicand)
  then show "(spec_pooled_se k1 n1 k2 n2 = Some 0) = (k1 + k2 = 0 \<or> k1 + k2 = n1 + n2)"
    using h pooled_radicand_zero_iff[of n1 n2 k1 k2] by simp
qed

theorem two_prop_ztest_inapplicable_iff_witness:
  "two_prop_ztest_checked (\<lambda>x. 1 / (1 + x)) 2 2 0 2 = Inr (Some (2, 2 / 3)) \<and>
   two_prop_ztest_checked (\<lambda>x. 1 / (1 + x)) 0 0 0 2 = Inr None \<and>
   spec_pooled_se 2 2 0 2 = Some (1 / 2) \<and>
   two_prop_ztest (\<lambda>x. 1 / (1 + x)) 2 2 0 2 = Some (2, 2 / 3) \<and>
   two_prop_ztest (\<lambda>x. 1 / (1 + x)) 0 2 0 2 = None \<and>
   spec_pooled_se 0 2 0 2 = Some 0"
proof -
  have se: "spec_pooled_se 2 2 0 2 = Some (1 / 2)"
    by (simp add: spec_pooled_se_def real_sqrt_divide)
  have se0: "spec_pooled_se 0 2 0 2 = Some 0"
    by (simp add: spec_pooled_se_def)
  have a: "two_prop_ztest (\<lambda>x. 1 / (1 + x)) 2 2 0 2 = Some (2, 2 / 3)"
    using two_prop_ztest_inapplicable_iff
      [of "\<lambda>x. 1 / (1 + x)" 2 2 0 2, THEN conjunct2, THEN conjunct2, THEN conjunct1,
        rule_format, of "1 / 2"] se
    by simp
  have b: "two_prop_ztest (\<lambda>x. 1 / (1 + x)) 0 2 0 2 = None"
    using two_prop_ztest_inapplicable_iff
      [of "\<lambda>x. 1 / (1 + x)" 0 2 0 2, THEN conjunct2, THEN conjunct1] se0
    by simp
  have c: "two_prop_ztest_checked (\<lambda>x. 1 / (1 + x)) 2 2 0 2 = Inr (Some (2, 2 / 3))"
    using two_prop_ztest_inapplicable_iff [of "\<lambda>x. 1 / (1 + x)" 2 2 0 2, THEN conjunct1] a
    by simp
  have d: "two_prop_ztest_checked (\<lambda>x. 1 / (1 + x)) 0 0 0 2 = Inr None"
    using two_prop_ztest_inapplicable_iff [of "\<lambda>x. 1 / (1 + x)" 0 0 0 2]
    by simp
  show ?thesis
    using a b c d se se0 by simp
qed

section \<open>Conservation of totals\<close>

lemma sum_list_insort_key:
  fixes f :: "'a \<Rightarrow> 'b::comm_monoid_add"
  shows "sum_list (map f (insort_key k x xs)) = f x + sum_list (map f xs)"
  by (induction xs) (auto simp: add.left_commute)

lemma sum_list_sort_key:
  fixes f :: "'a \<Rightarrow> 'b::comm_monoid_add"
  shows "sum_list (map f (sort_key k xs)) = sum_list (map f xs)"
  by (induction xs) (auto simp: sum_list_insort_key)

lemma sum_list_pick:
  fixes v :: "'b::comm_monoid_add"
  shows "distinct ks \<Longrightarrow>
    sum_list (map (\<lambda>k. if a = k then v else 0) ks) = (if a \<in> set ks then v else 0)"
  by (induction ks) auto

lemma sum_list_groups:
  fixes f :: "'a \<Rightarrow> 'b::comm_monoid_add"
  assumes "distinct ks"
  shows "sum_list (map (\<lambda>k. sum_list (map f (filter (\<lambda>r. key r = k) rs))) ks)
         = sum_list (map f (filter (\<lambda>r. key r \<in> set ks) rs))"
proof (induction rs)
  case Nil
  then show ?case by simp
next
  case (Cons r rs)
  have "sum_list (map (\<lambda>k. sum_list (map f (filter (\<lambda>r. key r = k) (r # rs)))) ks)
        = sum_list (map (\<lambda>k. (if key r = k then f r else 0)
                               + sum_list (map f (filter (\<lambda>r. key r = k) rs))) ks)"
    by (rule arg_cong[where f=sum_list], rule map_cong) auto
  also have "\<dots> = sum_list (map (\<lambda>k. if key r = k then f r else 0) ks)
                 + sum_list (map (\<lambda>k. sum_list (map f (filter (\<lambda>r. key r = k) rs))) ks)"
    by (simp add: sum_list_addf)
  also have "\<dots> = (if key r \<in> set ks then f r else 0)
                 + sum_list (map f (filter (\<lambda>r. key r \<in> set ks) rs))"
    using assms Cons.IH by (simp add: sum_list_pick)
  finally show ?case by simp
qed

lemma sum_list_split:
  fixes f :: "'a \<Rightarrow> 'b::comm_monoid_add"
  shows "sum_list (map f (filter P rs)) + sum_list (map f (filter (\<lambda>r. \<not> P r) rs))
         = sum_list (map f rs)"
proof (induction rs)
  case Nil
  then show ?case by simp
next
  case (Cons r rs)
  show ?case
  proof (cases "P r")
    case True
    then show ?thesis using Cons.IH by (simp add: add.assoc)
  next
    case False
    have "sum_list (map f (filter P rs)) + (f r + sum_list (map f (filter (\<lambda>r. \<not> P r) rs)))
          = f r + (sum_list (map f (filter P rs))
                   + sum_list (map f (filter (\<lambda>r. \<not> P r) rs)))"
      by (rule add.left_commute)
    then show ?thesis using False Cons.IH by simp
  qed
qed

lemma set_sorted_unique: "set (sorted_unique xs) = set xs - {NA}"
  by (auto simp: sorted_unique_def dropna_def)

lemma distinct_sorted_unique: "distinct (sorted_unique xs)"
  by (simp add: sorted_unique_def)

lemma col_sum_map: "col_sum (map (\<lambda>r. r c) xs) = sum_list (map (\<lambda>r. num_val (r c)) xs)"
  by (simp add: col_sum_def comp_def)

lemma group_sums_conserve:
  "sum_list (map (\<lambda>k. col_sum (map (\<lambda>r. r c) (group_rows df g k))) (group_keys df g))
   + col_sum (map (\<lambda>r. r c) (missing_rows df g))
   = col_sum (col df c)"
proof -
  let ?f = "\<lambda>r. num_val (r c)"
  have "sum_list (map (\<lambda>k. sum_list (map ?f (group_rows df g k))) (group_keys df g))
        = sum_list (map ?f (filter (\<lambda>r. r g \<in> set (group_keys df g)) (recs df)))"
    unfolding group_rows_def
    by (rule sum_list_groups) (simp add: group_keys_def distinct_sorted_unique)
  also have "filter (\<lambda>r. r g \<in> set (group_keys df g)) (recs df)
             = filter (\<lambda>r. \<not> r g = NA) (recs df)"
    by (rule filter_cong) (auto simp: group_keys_def set_sorted_unique col_def)
  finally have 1:
    "sum_list (map (\<lambda>k. sum_list (map ?f (group_rows df g k))) (group_keys df g))
     = sum_list (map ?f (filter (\<lambda>r. \<not> r g = NA) (recs df)))" .
  have 2: "sum_list (map ?f (filter (\<lambda>r. \<not> r g = NA) (recs df)))
           + sum_list (map ?f (filter (\<lambda>r. r g = NA) (recs df))) = sum_list (map ?f (recs df))"
    using sum_list_split[of ?f "\<lambda>r. \<not> r g = NA" "recs df"] by simp
  show ?thesis
    unfolding col_def col_sum_map missing_rows_def 1 by (rule 2)
qed

lemma agg_fields [simp]:
  "name (agg df g k) = k"
  "total_premium (agg df g k) = col_sum (map (\<lambda>r. r ''TotalPremium'') (group_rows df g k))"
  "total_claims (agg df g k) = col_sum (map (\<lambda>r. r ''TotalClaims'') (group_rows df g k))"
  "claims_count (agg df g k) = col_sum (map (\<lambda>r. r ''ClaimOccurred'') (group_rows df g k))"
  by (simp_all add: agg_def Let_def)

lemma result_of_fields [simp]:
  "name (result_of L df g a b x) = name x"
  "policies (result_of L df g a b x) = policies x"
  "total_premium (result_of L df g a b x) = total_premium x"
  "total_claims (result_of L df g a b x) = total_claims x"
  "claims_count (result_of L df g a b x) = claims_count x"
  by (simp_all add: result_of_def Let_def)

lemma summarize_group_Inr:
  assumes "summarize_group L df g top_n = Inr rows"
  shows "rows = sort_policies_desc
           (map (result_of L df g (overall_policies (groupby_agg df g))
                   (overall_claims (groupby_agg df g)))
              (keep_top top_n (groupby_agg df g)))"
  using assms by (simp add: summarize_group_def Let_def split: if_splits)

lemma head_all: "int (length xs) \<le> n \<Longrightarrow> head n xs = xs"
  by (simp add: head_def)

lemma keep_top_sum:
  fixes f :: "group_agg \<Rightarrow> real"
  assumes "keeps_every_group top_n (length grp)"
  shows "sum_list (map f (keep_top top_n grp)) = sum_list (map f grp)"
  using assms
  by (auto simp: keeps_every_group_def keep_top_def head_all sort_policies_desc_def
        sum_list_sort_key split: option.splits)

lemma emitted_sum:
  fixes f :: "result_row \<Rightarrow> real" and f' :: "group_agg \<Rightarrow> real"
  assumes "summarize_group L df g top_n = Inr rows"
    and "keeps_every_group top_n (length (group_keys df g))"
    and "\<And>a b x. f (result_of L df g a b x) = f' x"
  shows "sum_list (map f rows) = sum_list (map (\<lambda>k. f' (agg df g k)) (group_keys df g))"
proof -
  have "sum_list (map f rows)
        = sum_list (map f' (keep_top top_n (groupby_agg df g)))"
    unfolding summarize_group_Inr[OF assms(1)] sort_policies_desc_def sum_list_sort_key
    by (simp add: comp_def assms(3))
  also have "\<dots> = sum_list (map f' (groupby_agg df g))"
    using assms(2) by (intro keep_top_sum) (simp add: groupby_agg_def)
  finally show ?thesis by (simp add: groupby_agg_def comp_def)
qed

text \<open>
  C1. When the cap \<open>top_n\<close> drops no group (none is given, or it is 0, or it is at least
  the number of groups), the total premium of the emitted rows plus the total premium
  of the records with a missing segment value is the total premium of all records, and
  likewise for the total claims and for the claim counts.
\<close>

theorem summarize_group_conserves_totals:
  assumes "summarize_group L df g top_n = Inr rows"
    and "keeps_every_group top_n (length (group_keys df g))"
  shows "sum_list (map total_premium rows)
           + col_sum (map (\<lambda>r. r ''TotalPremium'') (missing_rows df g))
         = col_sum (col df ''TotalPremium'') \<and>
         sum_list (map total_claims rows)
           + col_sum (map (\<lambda>r. r ''TotalClaims'') (missing_rows df g))
         = col_sum (col df ''TotalClaims'') \<and>
         sum_list (map claims_count rows)
           + col_sum (map (\<lambda>r. r ''ClaimOccurred'') (missing_rows df g))
         = col_sum (col df ''ClaimOccurred'')"
  using emitted_sum[OF assms, of total_premium total_premium]
    emitted_sum[OF assms, of total_claims total_claims]
    emitted_sum[OF assms, of claims_count claims_count]
    group_sums_conserve[of _ df g]
  by simp

section \<open>The example frame evaluated\<close>

lemmas example_eval =
  example_provinces_def example_lib_def normal_row_def normal_columns_def mk_row_def
  example_row_A_def example_row_B_def

lemmas summarize_eval =
  summarize_group_def has_col_def text_in_sums_def groupby_agg_def keep_top_def
  overall_policies_def overall_claims_def
  group_keys_def sorted_unique_def dropna_def col_def agg_def group_rows_def rest_rows_def
  col_sum_def nunique_def count_notna_def sort_policies_desc_def head_def result_of_def
  severity_vs_rest_def severity_sample_def two_prop_ztest_def np_sqrt_def Let_def real_sqrt_divide

lemma example_provinces_uncapped:
  "summarize_group example_lib example_provinces ''Province'' None
   = Inr [example_row_A, example_row_B]"
  by (simp add: example_eval summarize_eval)

lemma example_provinces_capped:
  "summarize_group example_lib example_provinces ''Province'' (Some 1) = Inr [example_row_A]"
  by (simp add: example_eval summarize_eval)

lemma example_provinces_keys:
  "group_keys example_provinces ''Province'' = [Str ''A'', Str ''B'']"
  by (simp add: example_eval group_keys_def sorted_unique_def dropna_def col_def)

lemma example_provinces_totals:
  "col_sum (col example_provinces ''TotalPremium'') = 500"
  "col_sum (col example_provinces ''TotalClaims'') = 200"
  "col_sum (col example_provinces ''ClaimOccurred'') = 4"
  "col_sum (map (\<lambda>r. r ''TotalPremium'') (missing_rows example_provinces ''Province'')) = 100"
  "col_sum (map (\<lambda>r. r ''TotalClaims'') (missing_rows example_provinces ''Province'')) = 50"
  "col_sum (map (\<lambda>r. r ''ClaimOccurred'') (missing_rows example_provinces ''Province'')) = 1"
  by (simp_all add: example_eval col_sum_def col_def missing_rows_def)

theorem summarize_group_conserves_totals_witness:
  "summarize_group example_lib example_provinces ''Province'' None
     = Inr [example_row_A, example_row_B] \<and>
   keeps_every_group None (length (group_keys example_provinces ''Province'')) \<and>
   sum_list (map total_premium [example_row_A, example_row_B])
     + col_sum (map (\<lambda>r. r ''TotalPremium'') (missing_rows example_provinces ''Province''))
     = col_sum (col example_provinces ''TotalPremium'') \<and>
   sum_list (map total_claims [example_row_A, example_row_B])
     + col_sum (map (\<lambda>r. r ''TotalClaims'') (missing_rows example_provinces ''Province''))
     = col_sum (col example_provinces ''TotalClaims'') \<and>
   sum_list (map claims_count [example_row_A, example_row_B])
     + col_sum (map (\<lambda>r. r ''ClaimOccurred'') (missing_rows example_provinces ''Province''))
     = col_sum (col example_provinces ''ClaimOccurred'')"
proof -
  have k: "keeps_every_group None (length (group_keys example_provinces ''Province''))"
    by (simp add: keeps_every_group_def)
  show ?thesis
    using summarize_group_conserves_totals [OF example_provinces_uncapped k]
      example_provinces_uncapped k
    by simp
qed

text \<open>
  With a cap of one group, row B is not emitted and the totals of the emitted rows fall
  short: 300 + 100 is not 500.
\<close>

theorem summarize_group_capped_counterexample:
  "summarize_group example_lib example_provinces ''Province'' (Some 1) = Inr [example_row_A] \<and>
   sum_list (map total_premium [example_row_A])
     + col_sum (map (\<lambda>r. r ''TotalPremium'') (missing_rows example_provinces ''Province''))
     \<noteq> col_sum (col example_provinces ''TotalPremium'')"
  by (simp add: example_provinces_capped example_provinces_totals example_row_A_def)

section \<open>Claim frequency and loss ratio of a row\<close>

lemma claim_occurred_cases: "claim_occurred v = Num 0 \<or> claim_occurred v = Num 1"
  by (cases v) auto

lemma load_data_occurred_of:
  assumes "load_data L raw = Inr df" and "r \<in> set (recs df)"
  shows "r ''ClaimOccurred'' \<in> range claim_occurred"
  using assms
  by (auto simp: load_data_def Let_def assign_def split: if_splits)

lemma load_data_occurred:
  assumes "load_data L raw = Inr df" and "r \<in> set (recs df)"
  shows "r ''ClaimOccurred'' = Num 0 \<or> r ''ClaimOccurred'' = Num 1"
proof -
  from load_data_occurred_of[OF assms] obtain v where "r ''ClaimOccurred'' = claim_occurred v"
    by auto
  then show ?thesis using claim_occurred_cases[of v] by simp
qed

lemma set_head_subset: "set (head n xs) \<subseteq> set xs"
  by (auto simp: head_def dest: in_set_takeD)

lemma set_keep_top_subset: "set (keep_top top_n grp) \<subseteq> set grp"
  using set_head_subset[of _ "sort_policies_desc grp"]
  by (auto simp: keep_top_def sort_policies_desc_def split: option.splits)

lemma summarize_group_row:
  assumes "summarize_group L df g top_n = Inr rows" and "row \<in> set rows"
  shows "\<exists>k \<in> set (group_keys df g).
           row = result_of L df g (overall_policies (groupby_agg df g))
                   (overall_claims (groupby_agg df g)) (agg df g k)"
proof -
  from assms obtain x where x: "x \<in> set (keep_top top_n (groupby_agg df g))"
    and row: "row = result_of L df g (overall_policies (groupby_agg df g))
                   (overall_claims (groupby_agg df g)) x"
    unfolding summarize_group_Inr[OF assms(1)] sort_policies_desc_def by auto
  from x set_keep_top_subset have "x \<in> set (groupby_agg df g)" by blast
  then show ?thesis using row by (auto simp: groupby_agg_def)
qed

lemma group_rows_nonempty:
  "k \<in> set (group_keys df g) \<Longrightarrow> group_rows df g k \<noteq> []"
  by (auto simp: group_keys_def set_sorted_unique col_def group_rows_def filter_empty_conv)

lemma result_of_ratios:
  "claim_freq (result_of L df g a b x)
     = (if policies x \<noteq> 0 then Some (claims_count x / real (policies x)) else None)"
  "loss_ratio (result_of L df g a b x)
     = (if total_premium x \<noteq> 0 then Some (total_claims x / total_premium x) else None)"
  by (simp_all add: result_of_def Let_def)

lemma col_sum_indicator:
  assumes "\<forall>v \<in> set xs. v = Num 0 \<or> v = Num 1"
  shows "0 \<le> col_sum xs \<and> col_sum xs \<le> real (length xs) \<and> count_notna xs = length xs"
  using assms by (induction xs) (auto simp: col_sum_def count_notna_def dropna_def)

lemma agg_policies:
  "policies (agg df g k)
     = (if has_col df ''PolicyID'' then nunique (map (\<lambda>r. r ''PolicyID'') (group_rows df g k))
        else count_notna (map (\<lambda>r. r ''ClaimOccurred'') (group_rows df g k)))"
  by (simp add: agg_def Let_def)

text \<open>
  The path that counts policies by rows: for every row that \<open>summarize_group\<close>
  produces from a frame made by \<open>load_data\<close>, the claim frequency is missing when the
  policy count is 0 and is otherwise the claim count divided by the policy count, a
  quotient that is never negative; when the frame has no column PolicyID the policy
  count is positive and the quotient is at most 1; and the loss ratio is missing
  whenever the total premium is 0.
\<close>

lemma summarize_group_claim_freq:
  assumes "load_data L raw = Inr df"
    and "summarize_group L df g top_n = Inr rows"
    and "row \<in> set rows"
  shows "(claim_freq row
            = (if policies row = 0 then None
               else Some (claims_count row / real (policies row)))) \<and>
         0 \<le> claims_count row \<and>
         (\<not> has_col df ''PolicyID'' \<longrightarrow>
            0 < policies row \<and> claims_count row / real (policies row) \<le> 1) \<and>
         (total_premium row = 0 \<longrightarrow> loss_ratio row = None)"
proof -
  from summarize_group_row[OF assms(2,3)] obtain k a b where
    k: "k \<in> set (group_keys df g)" and row: "row = result_of L df g a b (agg df g k)"
    by blast
  let ?occ = "map (\<lambda>r. r ''ClaimOccurred'') (group_rows df g k)"
  have "\<forall>v \<in> set ?occ. v = Num 0 \<or> v = Num 1"
    using load_data_occurred[OF assms(1)] by (auto simp: group_rows_def)
  from col_sum_indicator[OF this]
  have ind: "0 \<le> col_sum ?occ" "col_sum ?occ \<le> real (length ?occ)"
    "count_notna ?occ = length ?occ" by simp_all
  have len: "0 < length ?occ" using group_rows_nonempty[OF k] by simp
  have "\<not> has_col df ''PolicyID'' \<Longrightarrow>
        0 < policies row \<and> claims_count row / real (policies row) \<le> 1"
    using ind len by (simp add: row agg_policies)
  then show ?thesis
    using ind(1) by (auto simp: row result_of_ratios)
qed

section \<open>The loaded example frames evaluated\<close>

lemmas load_eval =
  load_data_def clean_columns_def strip_columns_def assign_def strip_def is_space_def
  clean_numeric_def severity_of_def

lemma example_raw_loads: "load_data example_lib example_raw = Inr example_loaded"
  by (simp add: example_loaded_def load_eval has_col_def example_raw_def Let_def)

lemma example_loaded_rows:
  "summarize_group example_lib example_loaded ''Province'' None
   = Inr [example_loaded_row_A, example_loaded_row_B]"
  by (simp add: example_loaded_def example_raw_def example_loaded_row_A_def
      example_loaded_row_B_def example_lib_def mk_row_def load_eval summarize_eval)

lemma example_loaded_no_policy: "\<not> has_col example_loaded ''PolicyID''"
  by (simp add: example_loaded_def example_raw_def load_eval has_col_def Let_def)

lemma summarize_group_claim_freq_example:
  "load_data example_lib example_raw = Inr example_loaded \<and>
   summarize_group example_lib example_loaded ''Province'' None
     = Inr [example_loaded_row_A, example_loaded_row_B] \<and>
   \<not> has_col example_loaded ''PolicyID'' \<and>
   claim_freq example_loaded_row_A = Some 1 \<and>
   claims_count example_loaded_row_A / real (policies example_loaded_row_A) \<le> 1 \<and>
   total_premium example_loaded_row_B = 0 \<and>
   loss_ratio example_loaded_row_B = None \<and>
   claim_freq example_loaded_row_B = Some 0"
proof -
  have a: "example_loaded_row_A \<in> set [example_loaded_row_A, example_loaded_row_B]"
    and b: "example_loaded_row_B \<in> set [example_loaded_row_A, example_loaded_row_B]"
    by simp_all
  have pa: "policies example_loaded_row_A = 3" "claims_count example_loaded_row_A = 3"
    and pb: "policies example_loaded_row_B = 1" "claims_count example_loaded_row_B = 0"
      "total_premium example_loaded_row_B = 0"
    by (simp_all add: example_loaded_row_A_def example_loaded_row_B_def)
  show ?thesis
    using summarize_group_claim_freq [OF example_raw_loads example_loaded_rows a]
      summarize_group_claim_freq [OF example_raw_loads example_loaded_rows b]
      example_raw_loads example_loaded_rows example_loaded_no_policy pa pb
    by simp
qed

lemma example_raw_repeat_loads:
  "load_data example_lib example_raw_repeat = Inr example_loaded_repeat"
  by (simp add: example_loaded_repeat_def load_eval has_col_def example_raw_repeat_def Let_def)

lemma example_loaded_repeat_rows:
  "summarize_group example_lib example_loaded_repeat ''Province'' None
   = Inr [example_repeat_row_B, example_repeat_row_A]"
  by (simp add: example_loaded_repeat_def example_raw_repeat_def repeat_row_def
      example_repeat_row_A_def example_repeat_row_B_def example_lib_def mk_row_def
      load_eval summarize_eval)

lemma example_loaded_repeat_policies:
  "has_col example_loaded_repeat ''PolicyID''"
  "nunique (map (\<lambda>r. r ''PolicyID'') (group_rows example_loaded_repeat ''Province'' (Str ''A'')))
   = 1"
  "col_sum (map (\<lambda>r. r ''ClaimOccurred'')
      (group_rows example_loaded_repeat ''Province'' (Str ''A''))) = 3"
  by (simp_all add: example_loaded_repeat_def example_raw_repeat_def repeat_row_def
      example_lib_def mk_row_def load_eval has_col_def nunique_def dropna_def group_rows_def
      col_sum_def Let_def)

text \<open>
  C2. Policy 7 of province A has three transactions, each with a claim. The frame has
  the column PolicyID, so the policies of the row of A are its distinct PolicyID values,
  1, while its claim count is the number of its transactions with a claim, 3: the claim
  frequency of the row is 3, outside [0, 1]. Passed on as \<open>k\<close> and \<open>n\<close>, the same
  counts give the z-test a pooled proportion of 4/3, and it is inapplicable.
\<close>

theorem claim_freq_above_one:
  "load_data example_lib example_raw_repeat = Inr example_loaded_repeat \<and>
   summarize_group example_lib example_loaded_repeat ''Province'' None
     = Inr [example_repeat_row_B, example_repeat_row_A] \<and>
   has_col example_loaded_repeat ''PolicyID'' \<and>
   policies example_repeat_row_A
     = nunique (map (\<lambda>r. r ''PolicyID'')
         (group_rows example_loaded_repeat ''Province'' (Str ''A''))) \<and>
   claims_count example_repeat_row_A
     = col_sum (map (\<lambda>r. r ''ClaimOccurred'')
         (group_rows example_loaded_repeat ''Province'' (Str ''A''))) \<and>
   policies example_repeat_row_A = 1 \<and>
   claims_count example_repeat_row_A = 3 \<and>
   claim_freq example_repeat_row_A = Some 3 \<and>
   (3::real) \<notin> {0..1} \<and>
   two_prop_ztest (norm_sf example_lib) 3 1 1 2 = None"
  by (simp add: example_raw_repeat_loads example_loaded_repeat_rows
      example_loaded_repeat_policies)
     (simp add: example_repeat_row_A_def two_prop_ztest_unfold pooled_radicand_def)

section \<open>The size gate of the Mann-Whitney comparison\<close>

lemma result_of_mw:
  "(mw_stat_severity_vs_rest (result_of L df g a b x),
    p_severity_vs_rest (result_of L df g a b x))
   = severity_vs_rest L (severity_sample (group_rows df g (name x)))
       (severity_sample (rest_rows df g (name x)))"
  by (simp add: result_of_def Let_def)

lemma gender_tests_mw:
  assumes "gender_tests L df = Inr (Some (Gender_results freq mw))"
  shows "mw = (let male = severity_sample (filter (\<lambda>r. r ''Gender'' = Str ''Male'') (recs df));
                   female = severity_sample (filter (\<lambda>r. r ''Gender'' = Str ''Female'') (recs df))
               in if 10 \<le> length male \<and> 10 \<le> length female
                  then mannwhitneyu L male female else None)"
  using assms
  by (auto simp: gender_tests_def Let_def split: if_splits sum.splits option.splits)

text \<open>
  C5. In every row of \<open>summarize_group\<close>, the Mann-Whitney fields are missing when the
  severity sample of the group or that of the rest has fewer than 10 observations,
  whatever the library routine would return; with at least 10 in both they are what
  the routine returns (missing if it raises). The comparison of the genders in
  \<open>run_tests\<close> has the same gate on its two samples.
\<close>

theorem mann_whitney_gate:
  "(\<forall>rows row. summarize_group L df g top_n = Inr rows \<and> row \<in> set rows \<longrightarrow>
      (let s_group = severity_sample (group_rows df g (name row));
           s_rest = severity_sample (rest_rows df g (name row))
       in (length s_group < 10 \<or> length s_rest < 10 \<longrightarrow>
             mw_stat_severity_vs_rest row = None \<and> p_severity_vs_rest row = None) \<and>
          (10 \<le> length s_group \<and> 10 \<le> length s_rest \<longrightarrow>
             (mw_stat_severity_vs_rest row, p_severity_vs_rest row)
             = (case mannwhitneyu L s_group s_rest of
                  Some u \<Rightarrow> u | None \<Rightarrow> (None, None))))) \<and>
   (\<forall>freq mw. gender_tests L df = Inr (Some (Gender_results freq mw)) \<longrightarrow>
      (let male = severity_sample (filter (\<lambda>r. r ''Gender'' = Str ''Male'') (recs df));
           female = severity_sample (filter (\<lambda>r. r ''Gender'' = Str ''Female'') (recs df))
       in (length male < 10 \<or> length female < 10 \<longrightarrow> mw = None) \<and>
          (10 \<le> length male \<and> 10 \<le> length female \<longrightarrow> mw = mannwhitneyu L male female)))"
proof (intro conjI allI impI)
  fix rows row
  assume h: "summarize_group L df g top_n = Inr rows \<and> row \<in> set rows"
  then obtain k a b where row: "row = result_of L df g a b (agg df g k)"
    using summarize_group_row[of L df g top_n rows row] by blast
  show "let s_group = severity_sample (group_rows df g (name row));
            s_rest = severity_sample (rest_rows df g (name row))
        in (length s_group < 10 \<or> length s_rest < 10 \<longrightarrow>
              mw_stat_severity_vs_rest row = None \<and> p_severity_vs_rest row = None) \<and>
           (10 \<le> length s_group \<and> 10 \<le> length s_rest \<longrightarrow>
              (mw_stat_severity_vs_rest row, p_severity_vs_rest row)
              = (case mannwhitneyu L s_group s_rest of
                   Some u \<Rightarrow> u | None \<Rightarrow> (None, None)))"
    using result_of_mw[of L df g a b "agg df g k"]
    by (auto simp: row Let_def severity_vs_rest_def split: option.splits)
next
  fix freq mw
  assume "gender_tests L df = Inr (Some (Gender_results freq mw))"
  from gender_tests_mw[OF this]
  show "let male = severity_sample (filter (\<lambda>r. r ''Gender'' = Str ''Male'') (recs df));
            female = severity_sample (filter (\<lambda>r. r ''Gender'' = Str ''Female'') (recs df))
        in (length male < 10 \<or> length female < 10 \<longrightarrow> mw = None) \<and>
           (10 \<le> length male \<and> 10 \<le> length female \<longrightarrow> mw = mannwhitneyu L male female)"
    by (auto simp: Let_def)
qed

lemmas tests_eval =
  gender_tests_def chi2_test_frequency_def crosstab_def has_col_def col_def sorted_unique_def
  dropna_def severity_sample_def Let_def pearson_chi2_def table_dof_def power2_eq_square

lemma example_genders_small:
  "gender_tests example_lib (example_genders 1)
   = Inr (Some (Gender_results (example_genders_table 1) None))"
  by (simp add: example_genders_def example_genders_table_def gender_row_def mk_row_def
      example_lib_def tests_eval)

lemma example_genders_ten:
  "gender_tests example_lib (example_genders 10)
   = Inr (Some (Gender_results (example_genders_table 10) (Some (Some 1, Some 1))))"
  by (simp add: example_genders_def example_genders_table_def gender_row_def mk_row_def
      example_lib_def tests_eval eval_nat_numeral)

lemma example_twenty_rows:
  "summarize_group example_lib example_twenty ''Province'' None
   = Inr [example_twenty_row_A, example_twenty_row_B]"
  by (simp add: example_twenty_def example_twenty_row_A_def example_twenty_row_B_def
      example_lib_def normal_row_def normal_columns_def mk_row_def summarize_eval eval_nat_numeral)

lemma example_provinces_samples:
  "length (severity_sample (group_rows example_provinces ''Province'' (Str ''A''))) = 3"
  "length (severity_sample (rest_rows example_provinces ''Province'' (Str ''A''))) = 1"
  by (simp_all add: example_eval severity_sample_def group_rows_def rest_rows_def dropna_def)

lemma example_twenty_samples:
  "length (severity_sample (group_rows example_twenty ''Province'' (Str ''A''))) = 11"
  "length (severity_sample (rest_rows example_twenty ''Province'' (Str ''A''))) = 10"
  by (simp_all add: example_twenty_def normal_row_def mk_row_def severity_sample_def
      group_rows_def rest_rows_def dropna_def)

theorem mann_whitney_gate_witness:
  "summarize_group example_lib example_provinces ''Province'' None
     = Inr [example_row_A, example_row_B] \<and>
   length (severity_sample (group_rows example_provinces ''Province'' (name example_row_A))) < 10 \<and>
   mw_stat_severity_vs_rest example_row_A = None \<and>
   p_severity_vs_rest example_row_A = None \<and>
   summarize_group example_lib example_twenty ''Province'' None
     = Inr [example_twenty_row_A, example_twenty_row_B] \<and>
   10 \<le> length (severity_sample
                (group_rows example_twenty ''Province'' (name example_twenty_row_A))) \<and>
   10 \<le> length (severity_sample
                (rest_rows example_twenty ''Province'' (name example_twenty_row_A))) \<and>
   (mw_stat_severity_vs_rest example_twenty_row_A, p_severity_vs_rest example_twenty_row_A)
     = (Some 1, Some 1) \<and>
   gender_tests example_lib (example_genders 1)
     = Inr (Some (Gender_results (example_genders_table 1) None)) \<and>
   gender_tests example_lib (example_genders 10)
     = Inr (Some (Gender_results (example_genders_table 10) (Some (Some 1, Some 1))))"
proof -
  have nA: "name example_row_A = Str ''A''" "name example_twenty_row_A = Str ''A''"
    by (simp_all add: example_row_A_def example_twenty_row_A_def)
  have lib: "mannwhitneyu example_lib = (\<lambda>a b. Some (Some 1, Some 1))"
    by (simp add: example_lib_def)
  have 1: "mw_stat_severity_vs_rest example_row_A = None \<and>
           p_severity_vs_rest example_row_A = None"
    using mann_whitney_gate [of example_lib example_provinces "''Province''" None,
        THEN conjunct1, rule_format, of "[example_row_A, example_row_B]" example_row_A]
      example_provinces_uncapped example_provinces_samples nA
    by (simp add: Let_def)
  have 2: "(mw_stat_severity_vs_rest example_twenty_row_A,
            p_severity_vs_rest example_twenty_row_A) = (Some 1, Some 1)"
    using mann_whitney_gate [of example_lib example_twenty "''Province''" None,
        THEN conjunct1, rule_format, of "[example_twenty_row_A, example_twenty_row_B]"
        example_twenty_row_A]
      example_twenty_rows example_twenty_samples nA lib
    by (simp add: Let_def)
  show ?thesis
    using 1 2 example_provinces_uncapped example_twenty_rows example_provinces_samples
      example_twenty_samples nA example_genders_small example_genders_ten
    by simp
qed

section \<open>The cap selects rows and changes none\<close>

lemma groupby_agg_names: "map name (groupby_agg df g) = group_keys df g"
  by (simp add: groupby_agg_def comp_def)

lemma distinct_group_keys: "distinct (group_keys df g)"
  by (simp add: group_keys_def distinct_sorted_unique)

lemma distinct_map_sort_key:
  "distinct (map f (sort_key k xs)) = distinct (map f xs)"
  by (simp add: distinct_map)

lemma summarize_group_uncapped:
  assumes "summarize_group L df g top_n = Inr rows"
  shows "summarize_group L df g None
         = Inr (sort_policies_desc
                  (map (result_of L df g (overall_policies (groupby_agg df g))
                          (overall_claims (groupby_agg df g)))
                     (groupby_agg df g)))"
proof -
  from assms have "keep_top top_n (groupby_agg df g) \<noteq> []"
    by (auto simp: summarize_group_def Let_def split: if_splits)
  then have "groupby_agg df g \<noteq> []"
    using set_keep_top_subset[of top_n "groupby_agg df g"] by (cases "keep_top top_n (groupby_agg df g)") auto
  then show ?thesis
    using assms
    by (auto simp: summarize_group_def Let_def keep_top_def split: if_splits)
qed

text \<open>
  C10. Whatever rows \<open>summarize_group\<close> emits under a cap \<open>top_n\<close>, it emits without
  the cap as well, with the same values in every field; and without the cap there is
  one row per segment value, so a retained group has the same statistics and test
  results with and without the cap.
\<close>

theorem top_n_only_selects_rows:
  assumes "summarize_group L df g top_n = Inr rows"
  shows "\<exists>all_rows. summarize_group L df g None = Inr all_rows \<and>
           set rows \<subseteq> set all_rows \<and> distinct (map name all_rows)"
proof -
  let ?f = "result_of L df g (overall_policies (groupby_agg df g))
              (overall_claims (groupby_agg df g))"
  let ?all = "sort_policies_desc (map ?f (groupby_agg df g))"
  have 1: "summarize_group L df g None = Inr ?all"
    by (rule summarize_group_uncapped[OF assms])
  have "rows = sort_policies_desc (map ?f (keep_top top_n (groupby_agg df g)))"
    by (rule summarize_group_Inr[OF assms])
  then have 2: "set rows \<subseteq> set ?all"
    using set_keep_top_subset[of top_n "groupby_agg df g"]
    by (auto simp: sort_policies_desc_def)
  have "map name (map ?f (groupby_agg df g)) = group_keys df g"
    by (simp add: comp_def groupby_agg_def)
  then have 3: "distinct (map name ?all)"
    unfolding sort_policies_desc_def distinct_map_sort_key
    by (simp add: distinct_group_keys)
  from 1 2 3 show ?thesis by blast
qed

theorem top_n_only_selects_rows_witness:
  "summarize_group example_lib example_provinces ''Province'' (Some 1) = Inr [example_row_A] \<and>
   summarize_group example_lib example_provinces ''Province'' None
     = Inr [example_row_A, example_row_B] \<and>
   set [example_row_A] \<subseteq> set [example_row_A, example_row_B] \<and>
   distinct (map name [example_row_A, example_row_B])"
  using top_n_only_selects_rows [OF example_provinces_capped]
    example_provinces_capped example_provinces_uncapped
  by simp

section \<open>The rest of a group\<close>

lemma sum_list_ones: "sum_list (map (\<lambda>_. Suc 0) xs) = length xs"
  by (induction xs) auto

lemma group_lengths_conserve:
  "sum_list (map (\<lambda>k. length (group_rows df g k)) (group_keys df g))
   + length (missing_rows df g) = length (recs df)"
proof -
  let ?f = "\<lambda>r::row. 1::nat"
  have "sum_list (map (\<lambda>k. sum_list (map ?f (group_rows df g k))) (group_keys df g))
        = sum_list (map ?f (filter (\<lambda>r. r g \<in> set (group_keys df g)) (recs df)))"
    unfolding group_rows_def
    by (rule sum_list_groups) (simp add: group_keys_def distinct_sorted_unique)
  also have "filter (\<lambda>r. r g \<in> set (group_keys df g)) (recs df)
             = filter (\<lambda>r. \<not> r g = NA) (recs df)"
    by (rule filter_cong) (auto simp: group_keys_def set_sorted_unique col_def)
  finally have "sum_list (map (\<lambda>k. length (group_rows df g k)) (group_keys df g))
        = length (filter (\<lambda>r. \<not> r g = NA) (recs df))"
    by (simp add: sum_list_ones)
  then show ?thesis
    using sum_length_filter_compl[of "\<lambda>r. r g = NA" "recs df"]
    by (simp add: missing_rows_def)
qed

lemma count_notna_all: "NA \<notin> set xs \<Longrightarrow> count_notna xs = length xs"
  by (induction xs) (auto simp: count_notna_def dropna_def)

text \<open>
  Where no record has a missing segment value and policies are counted by rows, the
  baselines \<open>rest_n\<close> and \<open>rest_k\<close> of a group are the number of the records outside
  the group and the number of claims among them.
\<close>

lemma rest_baseline_without_missing:
  assumes "missing_rows df g = []" and "\<not> has_col df ''PolicyID''"
    and "NA \<notin> set (col df ''ClaimOccurred'')"
  shows "overall_policies (groupby_agg df g) - int (policies (agg df g k))
         = int (length (rest_rows df g k))"
    and "overall_claims (groupby_agg df g) - claims_count (agg df g k)
         = col_sum (map (\<lambda>r. r ''ClaimOccurred'') (rest_rows df g k))"
proof -
  have pol: "policies (agg df g k') = length (group_rows df g k')" for k'
  proof -
    have "NA \<notin> set (map (\<lambda>r. r ''ClaimOccurred'') (group_rows df g k'))"
      using assms(3) by (auto simp: col_def group_rows_def)
    then show ?thesis using assms(2) by (simp add: agg_policies count_notna_all)
  qed
  have "sum_list (map policies (groupby_agg df g))
        = sum_list (map (\<lambda>k. length (group_rows df g k)) (group_keys df g))"
    by (simp add: groupby_agg_def comp_def pol)
  also have "\<dots> = length (recs df)"
    using group_lengths_conserve[of df g] assms(1) by simp
  also have "\<dots> = length (group_rows df g k) + length (rest_rows df g k)"
    using sum_length_filter_compl[of "\<lambda>r. r g = k" "recs df"]
    by (simp add: group_rows_def rest_rows_def)
  finally show "overall_policies (groupby_agg df g) - int (policies (agg df g k))
         = int (length (rest_rows df g k))"
    by (simp add: overall_policies_def pol)
next
  let ?c = "''ClaimOccurred''"
  have "overall_claims (groupby_agg df g)
        = sum_list (map (\<lambda>k. col_sum (map (\<lambda>r. r ?c) (group_rows df g k))) (group_keys df g))"
    by (simp add: overall_claims_def groupby_agg_def comp_def)
  also have "\<dots> = col_sum (col df ?c)"
    using group_sums_conserve[of ?c df g] assms(1) by (simp add: col_sum_def)
  also have "\<dots> = col_sum (map (\<lambda>r. r ?c) (group_rows df g k))
                  + col_sum (map (\<lambda>r. r ?c) (rest_rows df g k))"
    using sum_list_split[of "\<lambda>r. num_val (r ?c)" "\<lambda>r. r g = k" "recs df"]
    by (simp add: col_def col_sum_map group_rows_def rest_rows_def)
  finally show "overall_claims (groupby_agg df g) - claims_count (agg df g k)
         = col_sum (map (\<lambda>r. r ''ClaimOccurred'') (rest_rows df g k))"
    by simp
qed

text \<open>
  C9. In \<open>example_provinces\<close> one record has no province, and it has a claim. For group
  A the frequency baseline is 0 claims of 1 policy, the totals of group B alone, while
  the records outside group A are 2 with 1 claim; the severity sample of the rest does
  hold the claim of the record without a province.
\<close>

theorem rest_baseline_with_missing_segment:
  "summarize_group example_lib example_provinces ''Province'' None
     = Inr [example_row_A, example_row_B] \<and>
   overall_policies (groupby_agg example_provinces ''Province'')
     - int (policies example_row_A) = 1 \<and>
   overall_claims (groupby_agg example_provinces ''Province'')
     - claims_count example_row_A = 0 \<and>
   length (rest_rows example_provinces ''Province'' (Str ''A'')) = 2 \<and>
   col_sum (map (\<lambda>r. r ''ClaimOccurred'') (rest_rows example_provinces ''Province'' (Str ''A'')))
     = 1 \<and>
   severity_sample (rest_rows example_provinces ''Province'' (Str ''A'')) = [Num 50]"
  by (simp add: example_provinces_uncapped)
     (simp add: example_eval summarize_eval)

section \<open>The Kruskal-Wallis threshold\<close>

lemma kw_samples_filter:
  "filter (\<lambda>kv. m \<le> int (length (snd kv))) (kw_samples df g v)
   = map (\<lambda>k. (k, dropna (map (\<lambda>r. r v) (group_rows df g k))))
       (filter (\<lambda>k. m \<le> int (length (dropna (map (\<lambda>r. r v) (group_rows df g k)))))
          (group_keys df g))"
  by (simp add: kw_samples_def filter_map comp_def)

text \<open>
  C6. There is one sample per segment value: the non-missing values of the value
  column in the records of that segment. The samples with fewer values than the
  minimum size (20 unless the caller gives another) are discarded. With fewer than 2
  samples left the result is the inapplicable marker, however many samples were
  discarded; otherwise it is what the Kruskal-Wallis routine returns on exactly the
  samples left.
\<close>

theorem kw_test_numeric_threshold:
  assumes "has_col df g" and "has_col df v"
  shows "distinct (group_keys df g) \<and> set (group_keys df g) = set (col df g) - {NA} \<and>
    (let m = (case min_size of None \<Rightarrow> 20 | Some x \<Rightarrow> x);
         sample = (\<lambda>k. dropna (map (\<lambda>r. r v) (group_rows df g k)));
         qualifying = filter (\<lambda>k. m \<le> int (length (sample k))) (group_keys df g)
     in kw_test_numeric L df g v min_size
        = (if length qualifying < 2 then Inr (None, qualifying)
           else case kruskal L (map sample qualifying) of
                  None \<Rightarrow> Inl ValueError
                | Some sp \<Rightarrow> Inr (Some sp, qualifying)))"
proof (intro conjI)
  show "distinct (group_keys df g)"
    by (rule distinct_group_keys)
  show "set (group_keys df g) = set (col df g) - {NA}"
    by (simp add: group_keys_def set_sorted_unique)
  show "let m = (case min_size of None \<Rightarrow> 20 | Some x \<Rightarrow> x);
            sample = (\<lambda>k. dropna (map (\<lambda>r. r v) (group_rows df g k)));
            qualifying = filter (\<lambda>k. m \<le> int (length (sample k))) (group_keys df g)
        in kw_test_numeric L df g v min_size
           = (if length qualifying < 2 then Inr (None, qualifying)
              else case kruskal L (map sample qualifying) of
                     None \<Rightarrow> Inl ValueError
                   | Some sp \<Rightarrow> Inr (Some sp, qualifying))"
    using assms
    by (simp add: kw_test_numeric_def kw_samples_filter Let_def comp_def split: option.splits)
qed

lemmas kw_eval =
  kw_test_numeric_def kw_samples_def has_col_def group_keys_def group_rows_def col_def
  sorted_unique_def dropna_def Let_def

lemma example_margins_two:
  "kw_test_numeric example_lib (example_margins 2) ''Province'' ''Margin'' (Some 2)
   = Inr (Some (Some 1, Some 1), [Str ''A'', Str ''B''])"
  "kw_test_numeric example_lib (example_margins 2) ''Province'' ''Margin'' None = Inr (None, [])"
  by (simp_all add: example_margins_def example_lib_def mk_row_def kw_eval eval_nat_numeral)

lemma example_margins_twenty:
  "kw_test_numeric example_lib (example_margins 20) ''Province'' ''Margin'' None
   = Inr (Some (Some 1, Some 1), [Str ''A'', Str ''B''])"
  by (simp add: example_margins_def example_lib_def mk_row_def kw_eval eval_nat_numeral)

lemma example_provinces_severity:
  "kw_test_numeric example_lib example_provinces ''Province'' ''ClaimSeverity'' (Some 2)
   = Inr (None, [Str ''A''])"
  by (simp add: example_eval kw_eval)

theorem kw_test_numeric_threshold_witness:
  "has_col (example_margins 20) ''Province'' \<and> has_col (example_margins 20) ''Margin'' \<and>
   kw_test_numeric example_lib (example_margins 20) ''Province'' ''Margin'' None
     = Inr (Some (Some 1, Some 1), [Str ''A'', Str ''B'']) \<and>
   filter (\<lambda>k. 20 \<le> int (length (dropna (map (\<lambda>r. r ''Margin'')
                      (group_rows (example_margins 20) ''Province'' k)))))
     (group_keys (example_margins 20) ''Province'') = [Str ''A'', Str ''B''] \<and>
   kw_test_numeric example_lib (example_margins 2) ''Province'' ''Margin'' None = Inr (None, []) \<and>
   kw_test_numeric example_lib example_provinces ''Province'' ''ClaimSeverity'' (Some 2)
     = Inr (None, [Str ''A''])"
proof -
  have c: "has_col (example_margins 20) ''Province''" "has_col (example_margins 20) ''Margin''"
    by (simp_all add: has_col_def example_margins_def)
  have k: "kruskal example_lib = (\<lambda>g. Some (Some 1, Some 1))"
    by (simp add: example_lib_def)
  have "filter (\<lambda>k. 20 \<le> int (length (dropna (map (\<lambda>r. r ''Margin'')
                      (group_rows (example_margins 20) ''Province'' k)))))
     (group_keys (example_margins 20) ''Province'') = [Str ''A'', Str ''B'']"
    using kw_test_numeric_threshold [OF c, of None example_lib] example_margins_twenty k
    by (simp add: Let_def split: if_splits)
  then show ?thesis
    using c example_margins_twenty example_margins_two example_provinces_severity by simp
qed

section \<open>The normaliser works in place\<close>

lemma clean_columns_columns: "columns (clean_columns L df) = columns df"
  by (simp add: clean_columns_def has_col_def assign_def)

lemma cleaned_absent:
  "''TotalPremium'' \<notin> set cs \<Longrightarrow> ''TotalClaims'' \<notin> set cs \<Longrightarrow>
   ''CustomValueEstimate'' \<notin> set cs \<Longrightarrow> cleaned L cs = (\<lambda>r. r)"
  by (auto simp: cleaned_def fun_eq_iff)

lemma clean_columns_recs: "recs (clean_columns L df) = map (cleaned L (columns df)) (recs df)"
  by (auto simp: clean_columns_def has_col_def assign_def cleaned_absent)
     (auto simp: cleaned_def fun_eq_iff)

lemma prepare_frame_error:
  "fst (prepare_frame L df) = (if has_col df ''TotalClaims'' then None else Some KeyError)"
  by (simp add: prepare_frame_def Let_def has_col_def assign_def clean_columns_columns)

lemma prepare_frame_length:
  "length (recs (snd (prepare_frame L df))) = length (recs df)"
  by (simp add: prepare_frame_def Let_def assign_def clean_columns_recs)

lemma prepare_frame_columns:
  "set (columns (snd (prepare_frame L df)))
   = set (columns df) \<union> (if has_col df ''TotalClaims''
                            then {''ClaimOccurred'', ''ClaimSeverity'', ''Margin''}
                            else {''ClaimOccurred''})"
  by (auto simp: prepare_frame_def Let_def assign_def has_col_def clean_columns_columns)

lemma prepare_frame_cells:
  assumes "c \<notin> {''ClaimOccurred'', ''ClaimSeverity'', ''Margin''}"
  shows "col (snd (prepare_frame L df)) c = map (\<lambda>r. cleaned L (columns df) r c) (recs df)"
  using assms
  by (simp add: prepare_frame_def Let_def assign_def col_def clean_columns_recs comp_def)

lemma prepare_frame_occurred:
  "col (snd (prepare_frame L df)) ''ClaimOccurred''
   = map (\<lambda>r. if has_col df ''TotalClaims''
               then claim_occurred (clean_numeric L (r ''TotalClaims'')) else Num 0) (recs df)"
  by (simp add: prepare_frame_def Let_def assign_def col_def clean_columns_recs
      clean_columns_columns comp_def has_col_def cleaned_def)

lemma prepare_frame_severity:
  "col (snd (prepare_frame L df)) ''ClaimSeverity''
   = map (\<lambda>r. if has_col df ''TotalClaims''
               then (if claim_occurred (clean_numeric L (r ''TotalClaims'')) = Num 1
                     then clean_numeric L (r ''TotalClaims'') else NA)
               else r ''ClaimSeverity'') (recs df)"
  by (simp add: prepare_frame_def Let_def assign_def col_def clean_columns_recs
      clean_columns_columns comp_def has_col_def cleaned_def severity_of_def)

lemma prepare_frame_margin:
  "col (snd (prepare_frame L df)) ''Margin''
   = map (\<lambda>r. if has_col df ''TotalClaims''
               then (if has_col df ''TotalPremium''
                     then cell_sub (clean_numeric L (r ''TotalPremium''))
                            (clean_numeric L (r ''TotalClaims''))
                     else NA)
               else r ''Margin'') (recs df)"
  by (simp add: prepare_frame_def Let_def assign_def col_def clean_columns_recs
      clean_columns_columns comp_def has_col_def cleaned_def)

text \<open>
  C7. \<open>prepare\<close> writes into the frame it is given and hands that same frame back:
  it returns the address it received (or raises KeyError when the frame has no column
  TotalClaims), and no frame at another address is changed. The frame at that address
  has afterwards as many rows as before, the parsed numeric columns, the column
  ClaimOccurred derived from the parsed claims and, when nothing was raised, the
  columns ClaimSeverity (the parsed claim where one occurred, else missing) and Margin
  (parsed premium minus parsed claim, missing without a premium column); every other
  cell is as it was.
\<close>

theorem prepare_updates_caller_frame:
  assumes "prepare L a h = (res, h')"
  shows "res = (if has_col (h a) ''TotalClaims'' then Inr a else Inl KeyError) \<and>
         (\<forall>b. b \<noteq> a \<longrightarrow> h' b = h b) \<and>
         length (recs (h' a)) = length (recs (h a)) \<and>
         set (columns (h' a))
           = set (columns (h a)) \<union> (if has_col (h a) ''TotalClaims''
                                      then {''ClaimOccurred'', ''ClaimSeverity'', ''Margin''}
                                      else {''ClaimOccurred''}) \<and>
         col (h' a) ''ClaimOccurred''
           = map (\<lambda>r. if has_col (h a) ''TotalClaims''
                       then claim_occurred (clean_numeric L (r ''TotalClaims'')) else Num 0)
               (recs (h a)) \<and>
         col (h' a) ''ClaimSeverity''
           = map (\<lambda>r. if has_col (h a) ''TotalClaims''
                       then (if claim_occurred (clean_numeric L (r ''TotalClaims'')) = Num 1
                             then clean_numeric L (r ''TotalClaims'') else NA)
                       else r ''ClaimSeverity'') (recs (h a)) \<and>
         col (h' a) ''Margin''
           = map (\<lambda>r. if has_col (h a) ''TotalClaims''
                       then (if has_col (h a) ''TotalPremium''
                             then cell_sub (clean_numeric L (r ''TotalPremium''))
                                    (clean_numeric L (r ''TotalClaims''))
                             else NA)
                       else r ''Margin'') (recs (h a)) \<and>
         (\<forall>c. c \<notin> {''ClaimOccurred'', ''ClaimSeverity'', ''Margin''} \<longrightarrow>
              col (h' a) c = map (\<lambda>r. cleaned L (columns (h a)) r c) (recs (h a)))"
proof -
  obtain e df' where p: "prepare_frame L (h a) = (e, df')"
    by (cases "prepare_frame L (h a)")
  from assms p have h': "h' = h(a := df')"
    by (auto simp: prepare_def split: option.splits)
  from assms p have res: "res = (case e of None \<Rightarrow> Inr a | Some x \<Rightarrow> Inl x)"
    by (auto simp: prepare_def split: option.splits)
  have e: "e = (if has_col (h a) ''TotalClaims'' then None else Some KeyError)"
    using prepare_frame_error[of L "h a"] p by simp
  have df': "df' = snd (prepare_frame L (h a))"
    using p by simp
  show ?thesis
    using prepare_frame_length[of L "h a"] prepare_frame_columns[of L "h a"]
      prepare_frame_occurred[of L "h a"] prepare_frame_cells[of _ L "h a"]
      prepare_frame_severity[of L "h a"] prepare_frame_margin[of L "h a"]
    by (simp add: h' res e df'[symmetric])
qed

lemmas prepare_eval =
  prepare_def prepare_frame_def clean_columns_def assign_def has_col_def strip_def
  is_space_def clean_numeric_def severity_of_def col_def Let_def

lemma example_prepare:
  "fst (prepare example_lib 0 (example_store example_raw_policy)) = Inr 0"
  "columns (snd (prepare example_lib 0 (example_store example_raw_policy)) 0)
   = [''Province'', ''PolicyID'', ''TotalPremium'', ''TotalClaims'', ''ClaimOccurred'',
      ''ClaimSeverity'', ''Margin'']"
  "col (snd (prepare example_lib 0 (example_store example_raw_policy)) 0) ''TotalClaims''
   = [Num 50, Num 0]"
  "col (example_store example_raw_policy 0) ''TotalClaims'' = [Str ''50'', Str ''0'']"
  by (simp_all add: example_store_def example_raw_policy_def example_lib_def mk_row_def
      prepare_eval)

theorem prepare_updates_caller_frame_witness:
  "prepare example_lib 0 (example_store example_raw_policy)
     = (Inr 0, snd (prepare example_lib 0 (example_store example_raw_policy))) \<and>
   has_col (example_store example_raw_policy 0) ''TotalClaims'' \<and>
   snd (prepare example_lib 0 (example_store example_raw_policy)) 1
     = example_store example_raw_policy 1 \<and>
   length (recs (snd (prepare example_lib 0 (example_store example_raw_policy)) 0)) = 2 \<and>
   col (snd (prepare example_lib 0 (example_store example_raw_policy)) 0) ''ClaimOccurred''
     = [Num 1, Num 0] \<and>
   col (snd (prepare example_lib 0 (example_store example_raw_policy)) 0) ''ClaimSeverity''
     = [Num 50, NA] \<and>
   col (snd (prepare example_lib 0 (example_store example_raw_policy)) 0) ''Margin''
     = [Num 50, Num 100] \<and>
   col (snd (prepare example_lib 0 (example_store example_raw_policy)) 0) ''TotalPremium''
     = [Num 100, Num 100] \<and>
   col (snd (prepare example_lib 0 (example_store example_raw_policy)) 0) ''Province''
     = [Str ''A'', Str ''A'']"
proof -
  let ?h = "example_store example_raw_policy"
  have p: "prepare example_lib 0 ?h = (Inr 0, snd (prepare example_lib 0 ?h))"
    using example_prepare(1) by (cases "prepare example_lib 0 ?h") simp
  have c: "has_col (?h 0) ''TotalClaims''"
    by (simp add: example_store_def example_raw_policy_def has_col_def)
  have r: "recs (?h 0)
           = [mk_row [(''Province'', Str ''A''), (''PolicyID'', Num 7),
                      (''TotalPremium'', Str ''100''), (''TotalClaims'', Str ''50'')],
              mk_row [(''Province'', Str ''A''), (''PolicyID'', Num 7),
                      (''TotalPremium'', Str ''100''), (''TotalClaims'', Str ''0'')]]"
    by (simp add: example_store_def example_raw_policy_def)
  have v: "clean_numeric example_lib (Str ''50'') = Num 50"
    "clean_numeric example_lib (Str ''0'') = Num 0"
    "clean_numeric example_lib (Str ''100'') = Num 100"
    by (simp_all add: clean_numeric_def example_lib_def strip_def is_space_def)
  have t: "has_col (?h 0) ''TotalPremium''"
    by (simp add: example_store_def example_raw_policy_def has_col_def)
  have cs: "columns (?h 0) = [''Province'', ''PolicyID'', ''TotalPremium'', ''TotalClaims'']"
    by (simp add: example_store_def example_raw_policy_def)
  note th = prepare_updates_caller_frame [OF p]
  have rest: "\<forall>c. c \<notin> {''ClaimOccurred'', ''ClaimSeverity'', ''Margin''} \<longrightarrow>
      col (snd (prepare example_lib 0 ?h) 0) c
      = map (\<lambda>r. cleaned example_lib (columns (?h 0)) r c) (recs (?h 0))"
    using th by blast
  have tp: "col (snd (prepare example_lib 0 ?h) 0) ''TotalPremium'' = [Num 100, Num 100]"
    using rest[rule_format, of "''TotalPremium''"] by (simp add: r v cs mk_row_def cleaned_def)
  have pr: "col (snd (prepare example_lib 0 ?h) 0) ''Province'' = [Str ''A'', Str ''A'']"
    using rest[rule_format, of "''Province''"] by (simp add: r v cs mk_row_def cleaned_def)
  have others: "snd (prepare example_lib 0 ?h) 1 = ?h 1"
    "length (recs (snd (prepare example_lib 0 ?h) 0)) = 2"
    "col (snd (prepare example_lib 0 ?h) 0) ''ClaimOccurred'' = [Num 1, Num 0]"
    "col (snd (prepare example_lib 0 ?h) 0) ''ClaimSeverity'' = [Num 50, NA]"
    "col (snd (prepare example_lib 0 ?h) 0) ''Margin'' = [Num 50, Num 100]"
    using th c t by (simp_all add: r v mk_row_def)
  show ?thesis
    using p c tp pr others by simp
qed

text \<open>
  The caller's frame is not what it was: its amounts were text and are numbers, and it
  has three columns more.
\<close>

theorem prepare_changes_input_counterexample:
  "snd (prepare example_lib 0 (example_store example_raw_policy)) 0
     \<noteq> example_store example_raw_policy 0 \<and>
   col (example_store example_raw_policy 0) ''TotalClaims'' = [Str ''50'', Str ''0''] \<and>
   col (snd (prepare example_lib 0 (example_store example_raw_policy)) 0) ''TotalClaims''
     = [Num 50, Num 0]"
proof -
  have "columns (snd (prepare example_lib 0 (example_store example_raw_policy)) 0)
        \<noteq> columns (example_store example_raw_policy 0)"
    by (simp add: example_prepare(2)) (simp add: example_store_def example_raw_policy_def)
  then have "snd (prepare example_lib 0 (example_store example_raw_policy)) 0
     \<noteq> example_store example_raw_policy 0"
    by auto
  then show ?thesis
    by (simp add: example_prepare)
qed

section \<open>The contingency table of the chi-square test\<close>

lemma set_sorted_unique_clean: "NA \<notin> set xs \<Longrightarrow> set (sorted_unique xs) = set xs"
  by (simp add: set_sorted_unique)



lemma fillna_missing_notna [simp]: "fillna_missing v \<noteq> NA" "NA \<noteq> fillna_missing v"
  by (cases v; simp)+

















end
